theory Spec2Isabelle
  imports Complex_Main
begin

section \<open>Conventions\<close>

text \<open>
  The program is the single file \<open>src/main.cpp\<close>: a command-line front end that builds
  the tufted Laplacian of a mesh, optionally writes the two matrices, and optionally
  traces the edges of an intrinsic triangulation for display. Everything geometric is
  done by libraries (geometry-central, polyscope, args, Eigen) and by the header
  \<open>bubble_offset.h\<close>; their functions are parameters of the definitions below, and each
  definition names the lines it embeds.

  A \<open>double\<close> or \<open>float\<close> is modelled by a real number, so arithmetic is exact and
  two stored values are the same when they are equal. An \<open>int\<close> is modelled by an
  integer and a \<open>size_t\<close> by a natural number. A thrown exception, and the one place
  where the behaviour of the C++ is undefined, are values of the type \<open>error\<close>.
\<close>


section \<open>Sparse-matrix writer (\<open>saveMatrix\<close>, main.cpp lines 161-189)\<close>

text \<open>
  \<open>SparseMatrix<T>\<close> is Eigen's compressed column-major matrix. The writer only uses
  \<open>outerSize()\<close> and, for every outer index \<open>k\<close>, the inner iterator over the entries
  stored in column \<open>k\<close>. The model keeps exactly that: one list per outer index, holding
  the stored entries of that column in iteration order, each as the pair of its row
  index (\<open>it.row()\<close>) and its value (\<open>it.value()\<close>); \<open>it.col()\<close> is the outer index.
\<close>

type_synonym 'v sparse_matrix = "(nat \<times> 'v) list list"

datatype error =
    RuntimeError string
  | UndefinedFront
  | MissingStructure string

text \<open>
  The process's view of its output channels and of the file system. \<open>openable\<close> says
  whether constructing a \<open>std::ofstream\<close> on a path succeeds.
\<close>

record io_state =
  out_stdout :: string
  out_stderr :: string
  files :: "string \<rightharpoonup> string"
  openable :: "string \<Rightarrow> bool"

text \<open>An output file stream: the characters written so far and the precision in force.\<close>

record ofstream =
  written :: string
  precision :: nat

definition endl :: string where
  "endl = [CHR 0x0A]"

definition digit_char :: "nat \<Rightarrow> char" where
  "digit_char d = ''0123456789'' ! d"

text \<open>Decimal printing of an unsigned integer, as \<open>operator<<\<close> does for \<open>size_t\<close>.\<close>

function show_nat :: "nat \<Rightarrow> string" where
  "show_nat n = (if n < 10 then [digit_char n] else show_nat (n div 10) @ [digit_char (n mod 10)])"
  by pat_completeness auto
termination
  by (relation "measure (\<lambda>n. n)") auto

definition put_string :: "string \<Rightarrow> ofstream \<Rightarrow> ofstream" where
  "put_string s os = os\<lparr>written := written os @ s\<rparr>"

definition setprecision :: "nat \<Rightarrow> ofstream \<Rightarrow> ofstream" where
  "setprecision p os = os\<lparr>precision := p\<rparr>"

text \<open>
  \<open>outFile << val\<close> for the matrix's value type: the standard library's formatting of a
  value under the stream's precision is the parameter \<open>fmt\<close>.
\<close>

definition put_value :: "(nat \<Rightarrow> 'v \<Rightarrow> string) \<Rightarrow> 'v \<Rightarrow> ofstream \<Rightarrow> ofstream" where
  "put_value fmt v os = put_string (fmt (precision os) v) os"

text \<open>Line 184: \<open>outFile << (iRow + 1) << " " << (iCol + 1) << " " << val << std::endl\<close>.\<close>

definition write_entry :: "(nat \<Rightarrow> 'v \<Rightarrow> string) \<Rightarrow> nat \<Rightarrow> nat \<Rightarrow> 'v \<Rightarrow> ofstream \<Rightarrow> ofstream" where
  "write_entry fmt iRow iCol val os =
     put_string endl
       (put_value fmt val
         (put_string '' ''
           (put_string (show_nat (iCol + 1))
             (put_string '' ''
               (put_string (show_nat (iRow + 1)) os)))))"

text \<open>Lines 179-185: the inner iterator over the stored entries of outer index \<open>k\<close>.\<close>

primrec innerLoop :: "(nat \<Rightarrow> 'v \<Rightarrow> string) \<Rightarrow> nat \<Rightarrow> (nat \<times> 'v) list \<Rightarrow> ofstream \<Rightarrow> ofstream" where
  "innerLoop fmt k [] os = os"
| "innerLoop fmt k (it # its) os = innerLoop fmt k its (write_entry fmt (fst it) k (snd it) os)"

text \<open>Line 178: \<open>for (int k = 0; k < matrix.outerSize(); ++k)\<close>.\<close>

function outerLoop :: "(nat \<Rightarrow> 'v \<Rightarrow> string) \<Rightarrow> nat \<Rightarrow> 'v sparse_matrix \<Rightarrow> ofstream \<Rightarrow> ofstream" where
  "outerLoop fmt k matrix os =
     (if k < length matrix then outerLoop fmt (k + 1) matrix (innerLoop fmt k (matrix ! k) os)
      else os)"
  by pat_completeness auto
termination
  by (relation "measure (\<lambda>(fmt, k, matrix, os). length matrix - k)") auto

text \<open>
  \<open>saveMatrix\<close>. The result is the exception thrown (if any) and the state of the
  channels and files at that moment or at the normal return. A freshly opened
  \<open>std::ofstream\<close> starts empty (the file is truncated) with the default precision 6.
\<close>

definition saveMatrix ::
  "(nat \<Rightarrow> 'v \<Rightarrow> string) \<Rightarrow> string \<Rightarrow> 'v sparse_matrix \<Rightarrow> io_state \<Rightarrow> error option \<times> io_state" where
  "saveMatrix fmt filename matrix io =
     (let io1 = io\<lparr>out_stdout := out_stdout io @ ''Writing sparse matrix to: '' @ filename @ endl\<rparr>
      in if \<not> openable io1 filename
         then (Some (RuntimeError (''failed to open output file '' @ filename)), io1)
         else
           (let outFile = \<lparr>written = [], precision = 6\<rparr>;
                outFile1 = setprecision 16 outFile;
                outFile2 = outerLoop fmt 0 matrix outFile1
            in (None, io1\<lparr>files := (files io1)(filename \<mapsto> written outFile2)\<rparr>)))"

text \<open>
  The contents the format description of the interface section promises, written from its
  words and compared with the writer above: every stored entry \<open>(row, col, value)\<close> gives
  the line \<open><row+1> <col+1> <value>\<close>, the value formatted under precision \<open>p\<close>.
\<close>

definition triplet_line :: "(nat \<Rightarrow> 'v \<Rightarrow> string) \<Rightarrow> nat \<Rightarrow> nat \<times> nat \<times> 'v \<Rightarrow> string" where
  "triplet_line fmt p t =
     (case t of (r, c, v) \<Rightarrow> show_nat (r + 1) @ '' '' @ show_nat (c + 1) @ '' '' @ fmt p v @ endl)"

definition column_entries :: "nat \<Rightarrow> (nat \<times> 'v) list \<Rightarrow> (nat \<times> nat \<times> 'v) list" where
  "column_entries k col = map (\<lambda>it. (fst it, k, snd it)) col"

definition stored_entries :: "'v sparse_matrix \<Rightarrow> (nat \<times> nat \<times> 'v) list" where
  "stored_entries matrix = concat (map (\<lambda>k. column_entries k (matrix ! k)) [0..<length matrix])"

definition count_newlines :: "string \<Rightarrow> nat" where
  "count_newlines s = length (filter (\<lambda>c. c = CHR 0x0A) s)"


section \<open>Command line and batch stage (\<open>main\<close>, main.cpp lines 214-300)\<close>

text \<open>
  The \<open>args\<close> parser is a library. \<open>parser.ParseCLI\<close> either throws \<open>args::Help\<close>, throws
  \<open>args::ParseError\<close> (with its \<open>what()\<close> text), or returns with the flags and the
  positional matched or not. A value flag that was not given is \<open>None\<close>; \<open>args::get\<close> then
  yields the default the flag was declared with (lines 223 and 227).
\<close>

record cli_args =
  inputFilename :: "string option"
  mollifyFactorArg :: "real option"
  gui :: bool
  outputPrefixArg :: "string option"
  writeLaplacian :: bool
  writeMass :: bool

datatype parse_outcome =
    ThrowsHelp
  | ThrowsParseError string
  | Parsed cli_args

definition args_get :: "'a \<Rightarrow> 'a option \<Rightarrow> 'a" where
  "args_get dflt flag = (case flag of None \<Rightarrow> dflt | Some v \<Rightarrow> v)"

text \<open>The globals and the local that lines 251-253 set.\<close>

record settings =
  withGUI :: bool
  mollifyFactor :: real
  outputPrefix :: string

text \<open>
  \<open>double\<close> is modelled by \<open>real\<close>. The global \<open>mollifyFactor\<close> is a \<open>float\<close>, so line 252
  narrows the parsed \<open>double\<close>; the narrowing is the parameter \<open>toFloat\<close>.
\<close>

definition setOptions :: "(real \<Rightarrow> real) \<Rightarrow> cli_args \<Rightarrow> settings" where
  "setOptions toFloat a =
     \<lparr>withGUI = gui a,
      mollifyFactor = toFloat (args_get (1 / 10 ^ 6) (mollifyFactorArg a)),
      outputPrefix = args_get ''tufted_'' (outputPrefixArg a)\<rparr>"

text \<open>
  The narrowing itself, for the platforms the program is built for: a \<open>float\<close> is an
  IEEE binary32 value and the conversion rounds to the nearest one, ties to the even
  significand. \<open>float_exponent\<close> searches the binade of a positive number upwards from
  the smallest normal exponent, \<open>narrow_magnitude\<close> rounds a positive number on the grid
  of that binade (the subnormal grid \<open>2 powi - 149\<close> below the normal range), and
  \<open>narrowToFloat\<close> adds the sign. A magnitude beyond the largest \<open>float\<close> narrows to an
  infinity, which the reals do not have; there the model continues the grid of the top
  binade, which keeps the sign, the only thing the test of line 76 reads.
\<close>

definition round_half_even :: "real \<Rightarrow> int" where
  "round_half_even q =
     (let f = \<lfloor>q\<rfloor>; r = q - of_int f
      in if r < 1 / 2 then f else if 1 / 2 < r then f + 1 else if even f then f else f + 1)"

function float_exponent :: "int \<Rightarrow> real \<Rightarrow> int" where
  "float_exponent e x =
     (if e < 127 \<and> 2 powi (e + 1) \<le> x then float_exponent (e + 1) x else e)"
  by pat_completeness auto
termination
  by (relation "measure (\<lambda>(e, x). nat (127 - e))") auto

definition narrow_magnitude :: "real \<Rightarrow> real" where
  "narrow_magnitude x =
     (let e = float_exponent (- 126) x; ulp = 2 powi (e - 23)
      in of_int (round_half_even (x / ulp)) * ulp)"

definition narrowToFloat :: "real \<Rightarrow> real" where
  "narrowToFloat x =
     (if x = 0 then 0 else if x < 0 then - narrow_magnitude (- x) else narrow_magnitude x)"

text \<open>
  What \<open>main\<close> needs from outside: the parser's usage text (\<open>operator<<\<close> on the parser),
  the formatting of a \<open>double\<close>, the narrowing to \<open>float\<close>, the mesh loader with the
  sanitising calls of lines 256-262 (which may throw), the library's
  \<open>buildTuftedLaplacian\<close>, and the interactive stage of lines 278-297.
\<close>

record 'm main_env =
  usage :: string
  fmtDouble :: "nat \<Rightarrow> real \<Rightarrow> string"
  toFloat :: "real \<Rightarrow> real"
  loadMesh :: "string \<Rightarrow> error + 'm"
  buildTuftedLaplacian :: "'m \<Rightarrow> real \<Rightarrow> real sparse_matrix \<times> real sparse_matrix"
  guiStage :: "'m \<Rightarrow> settings \<Rightarrow> io_state \<Rightarrow> error option \<times> io_state"

text \<open>
  How the process ends: \<open>main\<close> returns an exit code, or an exception leaves \<open>main\<close>
  uncaught and the run is terminated.
\<close>

datatype outcome =
    Returned int
  | Terminated error

definition EXIT_SUCCESS :: int where
  "EXIT_SUCCESS = 0"

definition EXIT_FAILURE :: int where
  "EXIT_FAILURE = 1"

definition print_out :: "string \<Rightarrow> io_state \<Rightarrow> io_state" where
  "print_out s io = io\<lparr>out_stdout := out_stdout io @ s\<rparr>"

definition print_err :: "string \<Rightarrow> io_state \<Rightarrow> io_state" where
  "print_err s io = io\<lparr>out_stderr := out_stderr io @ s\<rparr>"

text \<open>Lines 270-276: the two optional matrix files, the Laplacian first.\<close>

definition writeOutputs ::
  "(nat \<Rightarrow> real \<Rightarrow> string) \<Rightarrow> cli_args \<Rightarrow> string \<Rightarrow> real sparse_matrix \<Rightarrow> real sparse_matrix \<Rightarrow>
     io_state \<Rightarrow> error option \<times> io_state" where
  "writeOutputs fmt a prefix L M io =
     (case (if writeLaplacian a then saveMatrix fmt (prefix @ ''laplacian.spmat'') L io
            else (None, io)) of
        (Some err, io1) \<Rightarrow> (Some err, io1)
      | (None, io1) \<Rightarrow>
          (if writeMass a then saveMatrix fmt (prefix @ ''lumped_mass.spmat'') M io1
           else (None, io1)))"

text \<open>Lines 250-299, reached once a mesh name was given.\<close>

definition runPipeline :: "'m main_env \<Rightarrow> cli_args \<Rightarrow> string \<Rightarrow> io_state \<Rightarrow> outcome \<times> io_state" where
  "runPipeline env a meshName io =
     (let opts = setOptions (toFloat env) a in
      case loadMesh env meshName of
        Inl err \<Rightarrow> (Terminated err, io)
      | Inr inputMesh \<Rightarrow>
          (let io1 = print_out (''Building tufted Laplacian...'' @ endl) io;
               LM = buildTuftedLaplacian env inputMesh (mollifyFactor opts);
               io2 = print_out (''  ...done!'' @ endl) io1
           in case writeOutputs (fmtDouble env) a (outputPrefix opts) (fst LM) (snd LM) io2 of
                (Some err, io3) \<Rightarrow> (Terminated err, io3)
              | (None, io3) \<Rightarrow>
                  (if withGUI opts
                   then (case guiStage env inputMesh opts io3 of
                           (Some err, io4) \<Rightarrow> (Terminated err, io4)
                         | (None, io4) \<Rightarrow> (Returned EXIT_SUCCESS, io4))
                   else (Returned EXIT_SUCCESS, io3))))"

text \<open>Lines 232-248 and the hand-over to the rest of \<open>main\<close>.\<close>

definition main :: "'m main_env \<Rightarrow> parse_outcome \<Rightarrow> io_state \<Rightarrow> outcome \<times> io_state" where
  "main env parsed io =
     (case parsed of
        ThrowsHelp \<Rightarrow> (Returned 0, print_out (usage env) io)
      | ThrowsParseError what \<Rightarrow> (Returned 1, print_err (usage env) (print_err (what @ endl) io))
      | Parsed a \<Rightarrow>
          (case inputFilename a of
             None \<Rightarrow> (Returned EXIT_FAILURE, print_out (usage env) io)
           | Some meshName \<Rightarrow> runPipeline env a meshName io))"


section \<open>Vertex separation and mollification (\<open>generateVertexSeparatedTuftedCover\<close>, lines 49-89)\<close>

text \<open>
  Mesh elements are handles into index-backed tables; a \<open>VertexData\<close> or \<open>EdgeData\<close>
  container is a table keyed by the handle.
\<close>

type_synonym vertex = nat
type_synonym edge = nat
type_synonym face = nat
type_synonym halfedge = nat

text \<open>
  Lines 63-65: \<open>for (Vertex v : tuftedMesh->vertices())
  inputVertexPositions[v] = inputVertexPositions[origVert[v]]\<close>. The loop updates the
  position table in place, so a later iteration reads what an earlier one wrote.
  \<open>origVert\<close> is the table returned by the library's \<open>separateNonmanifoldVertices\<close>.
\<close>

primrec separatePositions :: "(vertex \<Rightarrow> vertex) \<Rightarrow> vertex list \<Rightarrow> (vertex \<Rightarrow> 'p) \<Rightarrow> (vertex \<Rightarrow> 'p)" where
  "separatePositions origVert [] inputVertexPositions = inputVertexPositions"
| "separatePositions origVert (v # vs) inputVertexPositions =
     separatePositions origVert vs (inputVertexPositions(v := inputVertexPositions (origVert v)))"

text \<open>
  Lines 73-78: the edge lengths read off the manifold geometry are passed through the
  library's \<open>mollifyIntrinsic\<close> (which rewrites the array it is given) only under the test
  \<open>mollifyFactor > 0\<close>; the result is what the intrinsic geometry of line 80 is built from.
\<close>

definition mollifyStage ::
  "('m \<Rightarrow> (edge \<Rightarrow> real) \<Rightarrow> real \<Rightarrow> (edge \<Rightarrow> real)) \<Rightarrow> real \<Rightarrow> 'm \<Rightarrow> (edge \<Rightarrow> real) \<Rightarrow> (edge \<Rightarrow> real)" where
  "mollifyStage mollifyIntrinsic factor manifoldTuftedMesh tuftedEdgeLengths =
     (if factor > 0 then mollifyIntrinsic manifoldTuftedMesh tuftedEdgeLengths factor
      else tuftedEdgeLengths)"

text \<open>
  Modelled from the spec: the library's \<open>mollifyIntrinsic\<close> is not part of the sources.
  The component design describes it: mollification "adds a fixed small positive amount
  to every edge length, scaled relative to the mesh's mean edge length". The mesh is
  given by the list of its edges.
\<close>

definition meanEdgeLength :: "edge list \<Rightarrow> (edge \<Rightarrow> real) \<Rightarrow> real" where
  "meanEdgeLength es len = sum_list (map len es) / real (length es)"

text \<open>
  Modelled from the spec: the mollifier itself, absent from the sources like the mean
  above; every length grows by the factor times the mean edge length.
\<close>

definition specMollify :: "edge list \<Rightarrow> (edge \<Rightarrow> real) \<Rightarrow> real \<Rightarrow> (edge \<Rightarrow> real)" where
  "specMollify es len factor = (\<lambda>e. len e + factor * meanEdgeLength es len)"


section \<open>Tracing intrinsic edges (\<open>generateVisualization\<close>, lines 91-158)\<close>

record vector3 =
  vec_x :: real
  vec_y :: real
  vec_z :: real

definition smult :: "real \<Rightarrow> vector3 \<Rightarrow> vector3" where
  "smult s v = \<lparr>vec_x = s * vec_x v, vec_y = s * vec_y v, vec_z = s * vec_z v\<rparr>"

definition vplus :: "vector3 \<Rightarrow> vector3 \<Rightarrow> vector3" where
  "vplus a b = \<lparr>vec_x = vec_x a + vec_x b, vec_y = vec_y a + vec_y b, vec_z = vec_z a + vec_z b\<rparr>"

definition coordSum :: "vector3 \<Rightarrow> real" where
  "coordSum v = vec_x v + vec_y v + vec_z v"

text \<open>A location on the surface: at a vertex, on an edge, or in a face with barycentric coordinates.\<close>

datatype surface_point =
    VertexPoint vertex
  | EdgePoint edge real
  | FacePoint face vector3

text \<open>
  The part of the signpost triangulation the generator touches: the edges it iterates
  over, \<open>e.halfedge()\<close>, \<open>he.vertex()\<close>, \<open>he.twin()\<close> and the mutable table of intrinsic
  edge lengths.
\<close>

record signpost_tri =
  mesh_edges :: "edge list"
  edge_halfedge :: "edge \<Rightarrow> halfedge"
  he_vertex :: "halfedge \<Rightarrow> vertex"
  he_twin :: "halfedge \<Rightarrow> halfedge"
  intrinsicEdgeLengths :: "edge \<Rightarrow> real"

text \<open>
  The library and header functions the generator calls: \<open>traceHalfedge\<close> (a query reading
  the triangulation it is called on; its third argument is the flag passed at line 122),
  \<open>sharedFace\<close>, \<open>inFace\<close> (given by the \<open>faceCoords\<close> of the face point it returns),
  \<open>BubbleOffset::queryPoint\<close> under a relative scale, and \<open>subdivideRounded\<close> under a
  subdivision level and a scale.
\<close>

record 'soup viz_externals =
  traceHalfedge :: "signpost_tri \<Rightarrow> halfedge \<Rightarrow> bool \<Rightarrow> surface_point list"
  sharedFace :: "surface_point \<Rightarrow> surface_point \<Rightarrow> face"
  inFace :: "surface_point \<Rightarrow> face \<Rightarrow> vector3"
  queryPoint :: "real \<Rightarrow> surface_point \<Rightarrow> vector3"
  subdivideRounded :: "int \<Rightarrow> real \<Rightarrow> 'soup"

record viz_params =
  subdivLevel :: int
  bubbleScale :: real
  pointsPerTriEdge :: int

text \<open>The largest value of the 32-bit \<open>int\<close> that holds \<open>pointsPerTriEdge\<close>.\<close>

definition INT_MAX :: int where
  "INT_MAX = 2147483647"

text \<open>Line 143: \<open>static_cast<double>(iInterp + 1) / (pointsPerTriEdge + 1)\<close>.\<close>

definition tInterp :: "int \<Rightarrow> int \<Rightarrow> real" where
  "tInterp iInterp n = of_int (iInterp + 1) / of_int (n + 1)"

text \<open>Line 145: \<open>(1. - tInterp) * pAF.faceCoords + tInterp * pBF.faceCoords\<close>.\<close>

definition baryInterp :: "real \<Rightarrow> vector3 \<Rightarrow> vector3 \<Rightarrow> vector3" where
  "baryInterp t a b = vplus (smult (1 - t) a) (smult t b)"

text \<open>
  Lines 142-148, from the counter value \<open>iInterp\<close> on: the surface points handed to
  \<open>pushLinePoint\<close>, in order. \<open>int\<close> is modelled by the integers; the additions of lines
  142-143 stay in range for every \<open>pointsPerTriEdge\<close> below the largest \<open>int\<close>.
\<close>

function interpLoop :: "int \<Rightarrow> int \<Rightarrow> face \<Rightarrow> vector3 \<Rightarrow> vector3 \<Rightarrow> surface_point list" where
  "interpLoop iInterp n sharedF a b =
     (if iInterp < n
      then FacePoint sharedF (baryInterp (tInterp iInterp n) a b) # interpLoop (iInterp + 1) n sharedF a b
      else [])"
  by pat_completeness auto
termination
  by (relation "measure (\<lambda>(iInterp, n, sharedF, a, b). nat (n - iInterp))") auto

text \<open>Lines 134-148 for the segment from \<open>points[i]\<close> to \<open>points[i + 1]\<close>.\<close>

definition segmentInterp :: "'soup viz_externals \<Rightarrow> int \<Rightarrow> surface_point \<Rightarrow> surface_point \<Rightarrow> surface_point list" where
  "segmentInterp ext n pA pB =
     (let sharedF = sharedFace ext pA pB;
          pAF = inFace ext pA sharedF;
          pBF = inFace ext pB sharedF
      in interpLoop 0 n sharedF pAF pBF)"

text \<open>Lines 131-152: \<open>for (size_t i = 0; i + 1 < points.size(); i++)\<close>, from index \<open>i\<close> on.\<close>

function segmentLoop :: "'soup viz_externals \<Rightarrow> int \<Rightarrow> nat \<Rightarrow> surface_point list \<Rightarrow> surface_point list" where
  "segmentLoop ext n i points =
     (if i + 1 < length points
      then segmentInterp ext n (points ! i) (points ! (i + 1)) @ [points ! (i + 1)]
             @ segmentLoop ext n (i + 1) points
      else [])"
  by pat_completeness auto
termination
  by (relation "measure (\<lambda>(ext, n, i, points). length points - i)") auto

text \<open>Line 120 and line 124.\<close>

definition nudgeLength :: "signpost_tri \<Rightarrow> edge \<Rightarrow> signpost_tri" where
  "nudgeLength tri e =
     tri\<lparr>intrinsicEdgeLengths := (intrinsicEdgeLengths tri)(e := intrinsicEdgeLengths tri e * 0.999)\<rparr>"

definition restoreLength :: "signpost_tri \<Rightarrow> edge \<Rightarrow> real \<Rightarrow> signpost_tri" where
  "restoreLength tri e oldLen =
     tri\<lparr>intrinsicEdgeLengths := (intrinsicEdgeLengths tri)(e := oldLen)\<rparr>"

text \<open>Lines 114-124: the traced points and the triangulation left behind.\<close>

definition traceNudged :: "'soup viz_externals \<Rightarrow> signpost_tri \<Rightarrow> edge \<Rightarrow> surface_point list \<times> signpost_tri" where
  "traceNudged ext tri e =
     (let he = edge_halfedge tri e;
          oldLen = intrinsicEdgeLengths tri e;
          tri1 = nudgeLength tri e;
          points = traceHalfedge ext tri1 he False;
          tri2 = restoreLength tri1 e oldLen
      in (points, tri2))"

text \<open>
  Lines 126-152: the surface points pushed onto the new line. \<open>points.front()\<close> of an
  empty vector has no defined behaviour; the model reports it as \<open>UndefinedFront\<close>.
\<close>

definition buildLine :: "'soup viz_externals \<Rightarrow> int \<Rightarrow> surface_point list \<Rightarrow> error + surface_point list" where
  "buildLine ext n points =
     (if points = [] then Inl UndefinedFront
      else Inr (hd points # segmentLoop ext n 0 points))"

text \<open>The body of the edge loop, lines 114-152.\<close>

definition traceEdge ::
  "'soup viz_externals \<Rightarrow> int \<Rightarrow> signpost_tri \<Rightarrow> edge \<Rightarrow> error + (surface_point list \<times> signpost_tri)" where
  "traceEdge ext n tri e =
     (case traceNudged ext tri e of
        (points, tri2) \<Rightarrow>
          (case buildLine ext n points of
             Inl err \<Rightarrow> Inl err
           | Inr line \<Rightarrow> Inr (line, tri2)))"

text \<open>
  Line 113: the loop over the edges, threading the triangulation and \<open>lines\<close>. Every
  surface point goes through \<open>pushLinePoint\<close>, which stores
  \<open>bubbleOffset.queryPoint(p)\<close> at the end of the last line.
\<close>

fun edgeLoop ::
  "'soup viz_externals \<Rightarrow> viz_params \<Rightarrow> edge list \<Rightarrow> signpost_tri \<Rightarrow> vector3 list list \<Rightarrow>
     error + (vector3 list list \<times> signpost_tri)" where
  "edgeLoop ext p [] tri lines = Inr (lines, tri)"
| "edgeLoop ext p (e # es) tri lines =
     (case traceEdge ext (pointsPerTriEdge p) tri e of
        Inl err \<Rightarrow> Inl err
      | Inr (line, tri') \<Rightarrow>
          edgeLoop ext p es tri' (lines @ [map (queryPoint ext (bubbleScale p)) line]))"

text \<open>
  Modelled from the spec: the renderer (polyscope) is not part of the sources. The
  interface section describes what it holds as "a rebuildable named rendering surface
  (inflated mesh) plus a named curve-set overlay". The registry is a table from
  structure names to structures, a structure being its mesh data and a table of named
  curve quantities. Registering a surface under a name puts a fresh structure, without
  quantities, in place of whatever the name held.
\<close>

record 'soup surface_structure =
  meshData :: 'soup
  graphQuantities :: "string \<rightharpoonup> vector3 list list"

type_synonym 'soup scene = "string \<rightharpoonup> 'soup surface_structure"

definition registerSurfaceMesh :: "string \<Rightarrow> 'soup \<Rightarrow> 'soup scene \<Rightarrow> 'soup scene" where
  "registerSurfaceMesh name soup sc = sc(name \<mapsto> \<lparr>meshData = soup, graphQuantities = Map.empty\<rparr>)"

text \<open>
  Modelled from the spec: \<open>getSurfaceMesh(name)->addSurfaceGraphQuantity(qname, lines)\<close>
  of the same renderer. The structure is looked up by name, which fails when there is
  none, and the curve set is stored in it under the quantity's name.
\<close>

definition addSurfaceGraphQuantity ::
  "string \<Rightarrow> string \<Rightarrow> vector3 list list \<Rightarrow> 'soup scene \<Rightarrow> error + 'soup scene" where
  "addSurfaceGraphQuantity name qname lines sc =
     (case sc name of
        None \<Rightarrow> Inl (MissingStructure name)
      | Some st \<Rightarrow> Inr (sc(name \<mapsto> st\<lparr>graphQuantities := (graphQuantities st)(qname \<mapsto> lines)\<rparr>)))"

text \<open>
  \<open>generateVisualization\<close>, lines 91-158: the registry and the triangulation go in and
  come out. \<open>outSoup\<close> (line 105) is never used. \<open>lines\<close> is a local that starts empty.
\<close>

definition generateVisualization ::
  "'soup viz_externals \<Rightarrow> viz_params \<Rightarrow> signpost_tri \<Rightarrow> 'soup scene \<Rightarrow>
     error + ('soup scene \<times> signpost_tri)" where
  "generateVisualization ext p tri sc =
     (let subSoup = subdivideRounded ext (subdivLevel p) (bubbleScale p);
          sc1 = registerSurfaceMesh ''bubble tufted cover'' subSoup sc
      in case edgeLoop ext p (mesh_edges tri) tri [] of
           Inl err \<Rightarrow> Inl err
         | Inr (lines, tri') \<Rightarrow>
             (case addSurfaceGraphQuantity ''bubble tufted cover'' ''intrinsic edges'' lines sc1 of
                Inl err \<Rightarrow> Inl err
              | Inr sc2 \<Rightarrow> Inr (sc2, tri')))"

text \<open>
  What a regeneration is said to leave behind, written from the words of the specification and
  compared with the generator above: one curve per edge of the triangulation, computed
  from the triangulation and the parameters alone, and a registry in which the surface
  "bubble tufted cover" is the freshly subdivided surface carrying that curve set as its
  only quantity, whatever the name held before.
\<close>

definition tracedCurves :: "'soup viz_externals \<Rightarrow> viz_params \<Rightarrow> signpost_tri \<Rightarrow> vector3 list list" where
  "tracedCurves ext p tri =
     map (\<lambda>e. map (queryPoint ext (bubbleScale p))
            (let points = traceHalfedge ext (nudgeLength tri e) (edge_halfedge tri e) False
             in hd points # segmentLoop ext (pointsPerTriEdge p) 0 points))
       (mesh_edges tri)"

definition rebuiltScene :: "'soup viz_externals \<Rightarrow> viz_params \<Rightarrow> signpost_tri \<Rightarrow> 'soup scene \<Rightarrow> 'soup scene" where
  "rebuiltScene ext p tri sc =
     sc(''bubble tufted cover'' \<mapsto>
          \<lparr>meshData = subdivideRounded ext (subdivLevel p) (bubbleScale p),
           graphQuantities = [''intrinsic edges'' \<mapsto> tracedCurves ext p tri]\<rparr>)"


section \<open>Concrete inputs\<close>

text \<open>
  Small inputs on which the results below are evaluated: a three-column matrix of
  natural numbers printed in decimal, file systems where one path, no path or every path
  can be opened,
  command lines with and without a mesh name, a triangulation of a single triangle
  (edge \<open>e\<close> runs from vertex \<open>e\<close> to vertex \<open>(e + 1) mod 3\<close>, with halfedges \<open>2e\<close> and
  \<open>2e + 1\<close>), and a tracer that reports the start vertex, one point on the edge placed at
  the edge's current length, and the end vertex.
\<close>

definition matrix0 :: "nat sparse_matrix" where
  "matrix0 = [[(0, 5), (2, 7)], [], [(1, 9)]]"

definition fmt0 :: "nat \<Rightarrow> nat \<Rightarrow> string" where
  "fmt0 p v = show_nat v"

definition io0 :: io_state where
  "io0 = \<lparr>out_stdout = [], out_stderr = [], files = Map.empty,
           openable = (\<lambda>f. f = ''tufted_laplacian.spmat'')\<rparr>"

definition io_closed :: io_state where
  "io_closed = \<lparr>out_stdout = [], out_stderr = [], files = Map.empty, openable = (\<lambda>f. False)\<rparr>"

definition io_empty :: io_state where
  "io_empty = \<lparr>out_stdout = [], out_stderr = [], files = Map.empty, openable = (\<lambda>f. True)\<rparr>"

definition args0 :: cli_args where
  "args0 = \<lparr>inputFilename = Some ''bowtie.obj'', mollifyFactorArg = None, gui = True,
             outputPrefixArg = None, writeLaplacian = True, writeMass = False\<rparr>"

definition args_tiny :: cli_args where
  "args_tiny = \<lparr>inputFilename = Some ''bowtie.obj'', mollifyFactorArg = Some (1 / 2 ^ 200),
             gui = True, outputPrefixArg = None, writeLaplacian = True, writeMass = False\<rparr>"

definition args_no_mesh :: cli_args where
  "args_no_mesh = \<lparr>inputFilename = None, mollifyFactorArg = None, gui = False,
             outputPrefixArg = None, writeLaplacian = False, writeMass = False\<rparr>"

definition env0 :: "unit main_env" where
  "env0 = \<lparr>usage = ''usage: demo mesh'', fmtDouble = (\<lambda>p v. ''0''), toFloat = (\<lambda>x. x),
            loadMesh = (\<lambda>f. Inr ()), buildTuftedLaplacian = (\<lambda>m f. ([], [])),
            guiStage = (\<lambda>m s io. (None, io))\<rparr>"

text \<open>Edge lengths of a degenerate triangle: edge 2 is as long as the other two together.\<close>

definition flatLengths :: "edge \<Rightarrow> real" where
  "flatLengths e = (if e = 2 then 2 else 1)"

definition tri0 :: signpost_tri where
  "tri0 = \<lparr>mesh_edges = [0, 1, 2],
            edge_halfedge = (\<lambda>e. 2 * e),
            he_vertex = (\<lambda>h. (h div 2 + h mod 2) mod 3),
            he_twin = (\<lambda>h. if even h then h + 1 else h - 1),
            intrinsicEdgeLengths = (\<lambda>e. 1)\<rparr>"

definition corner :: "vertex \<Rightarrow> vector3" where
  "corner v = (if v = 0 then \<lparr>vec_x = 1, vec_y = 0, vec_z = 0\<rparr>
               else if v = 1 then \<lparr>vec_x = 0, vec_y = 1, vec_z = 0\<rparr>
               else \<lparr>vec_x = 0, vec_y = 0, vec_z = 1\<rparr>)"

fun coords0 :: "surface_point \<Rightarrow> vector3" where
  "coords0 (VertexPoint v) = corner v"
| "coords0 (EdgePoint e t) = vplus (smult (1 - t) (corner e)) (smult t (corner ((e + 1) mod 3)))"
| "coords0 (FacePoint f c) = c"

definition ext0 :: "unit viz_externals" where
  "ext0 = \<lparr>traceHalfedge = (\<lambda>tri he trimEnd.
              [VertexPoint (he_vertex tri he),
               EdgePoint (he div 2) (intrinsicEdgeLengths tri (he div 2)),
               VertexPoint (he_vertex tri (he_twin tri he))]),
            sharedFace = (\<lambda>pA pB. 0),
            inFace = (\<lambda>p f. coords0 p),
            queryPoint = (\<lambda>s p. coords0 p),
            subdivideRounded = (\<lambda>level s. ())\<rparr>"

text \<open>
  A tracer that walks the stored length of the edge along an edge of true length 1: it
  reaches the end vertex when asked to trim or when the stored length is at least 1,
  and otherwise stops in the face, short of the end vertex.
\<close>

definition extEarly :: "unit viz_externals" where
  "extEarly = ext0\<lparr>traceHalfedge := (\<lambda>tri he trimEnd.
              [VertexPoint (he_vertex tri he),
               (let t = intrinsicEdgeLengths tri (he div 2)
                in if trimEnd \<or> 1 \<le> t then VertexPoint (he_vertex tri (he_twin tri he))
                   else FacePoint 0 (baryInterp t (corner (he_vertex tri he))
                          (corner (he_vertex tri (he_twin tri he)))))])\<rparr>"

text \<open>
  The same externals with a subdivision that records its level and scale, and a
  registry left by an earlier run with other parameters: the surface carries an outdated
  curve set and a second quantity.
\<close>

definition extSoup :: "(int \<times> real) viz_externals" where
  "extSoup = \<lparr>traceHalfedge = traceHalfedge ext0, sharedFace = sharedFace ext0,
               inFace = inFace ext0, queryPoint = queryPoint ext0,
               subdivideRounded = (\<lambda>level s. (level, s))\<rparr>"

definition sceneOld :: "(int \<times> real) scene" where
  "sceneOld = [''bubble tufted cover'' \<mapsto>
                 \<lparr>meshData = (1, 0),
                  graphQuantities = [''intrinsic edges'' \<mapsto> [[corner 2]], ''other'' \<mapsto> []]\<rparr>]"

definition params0 :: viz_params where
  "params0 = \<lparr>subdivLevel = 3, bubbleScale = 1 / 5, pointsPerTriEdge = 1\<rparr>"

text \<open>
  A separated mesh of four vertices in which vertex 3 is the copy split from vertex 1;
  the position table holds a placeholder for the new vertex before the copy loop runs.
  The table \<open>swapVert\<close>, which exchanges two vertices, is not one a separation returns.
\<close>

definition swapVert :: "vertex \<Rightarrow> vertex" where
  "swapVert v = (if v = 0 then 1 else 0)"

definition origVert0 :: "vertex \<Rightarrow> vertex" where
  "origVert0 v = (if v = 3 then 1 else v)"

definition positions0 :: "vertex \<Rightarrow> int" where
  "positions0 v = (if v = 3 then 0 else 10 + int v)"


section \<open>Properties of the matrix writer\<close>

declare show_nat.simps [simp del]
declare outerLoop.simps [simp del]
declare interpLoop.simps [simp del]
declare segmentLoop.simps [simp del]

lemma write_entry_written:
  "written (write_entry fmt r c v os) = written os @ triplet_line fmt (precision os) (r, c, v)"
  by (simp add: write_entry_def put_string_def put_value_def triplet_line_def)

lemma write_entry_precision: "precision (write_entry fmt r c v os) = precision os"
  by (simp add: write_entry_def put_string_def put_value_def)

lemma innerLoop_precision: "precision (innerLoop fmt k its os) = precision os"
  by (induction its arbitrary: os) (simp_all add: write_entry_precision)

lemma innerLoop_written:
  "written (innerLoop fmt k its os) =
     written os @ concat (map (triplet_line fmt (precision os)) (column_entries k its))"
  by (induction its arbitrary: os)
     (simp_all add: write_entry_written write_entry_precision column_entries_def)

lemma outerLoop_written:
  "written (outerLoop fmt k matrix os) =
     written os @ concat (map (triplet_line fmt (precision os))
       (concat (map (\<lambda>j. column_entries j (matrix ! j)) [k..<length matrix])))"
proof (induction fmt k matrix os rule: outerLoop.induct)
  case (1 fmt k matrix os)
  show ?case
  proof (cases "k < length matrix")
    case True
    then have "[k..<length matrix] = k # [k + 1..<length matrix]"
      by (simp add: upt_conv_Cons)
    with True 1 show ?thesis
      by (subst outerLoop.simps) (simp add: innerLoop_written innerLoop_precision)
  next
    case False
    then show ?thesis
      by (subst outerLoop.simps) simp
  qed
qed

lemma digit_char_not_newline: "d < 10 \<Longrightarrow> digit_char d \<noteq> CHR 0x0A"
proof -
  assume "d < 10"
  then have "d \<in> {0, 1, 2, 3, 4, 5, 6, 7, 8, 9}" by auto
  then show ?thesis
    by (auto simp: digit_char_def)
qed

lemma show_nat_no_newline: "CHR 0x0A \<notin> set (show_nat n)"
proof (induction n rule: show_nat.induct)
  case (1 n)
  show ?case
  proof (cases "n < 10")
    case True
    then show ?thesis
      using digit_char_not_newline [of n] by (subst show_nat.simps) simp
  next
    case False
    have "n mod 10 < 10" by simp
    with False 1 show ?thesis
      using digit_char_not_newline [of "n mod 10"] by (subst show_nat.simps) simp
  qed
qed

lemma filter_newline_none: "CHR 0x0A \<notin> set s \<Longrightarrow> filter (\<lambda>c. c = CHR 0x0A) s = []"
  by (induction s) auto

lemma count_newlines_triplet:
  assumes "CHR 0x0A \<notin> set (fmt p (snd (snd t)))"
  shows "count_newlines (triplet_line fmt p t) = 1"
proof -
  obtain r c v where t: "t = (r, c, v)" by (cases t) auto
  show ?thesis
    using assms
    by (simp add: t triplet_line_def count_newlines_def endl_def filter_newline_none
        show_nat_no_newline)
qed

lemma count_newlines_lines:
  assumes "\<forall>v. CHR 0x0A \<notin> set (fmt p v)"
  shows "count_newlines (concat (map (triplet_line fmt p) ts)) = length ts"
proof (induction ts)
  case Nil
  show ?case by (simp add: count_newlines_def)
next
  case (Cons t ts)
  have "count_newlines (triplet_line fmt p t) = 1"
    using assms by (simp add: count_newlines_triplet)
  with Cons show ?case
    by (simp add: count_newlines_def)
qed

lemma stored_entries_matrix0: "stored_entries matrix0 = [(0, 0, 5), (2, 0, 7), (1, 2, 9)]"
  by (simp add: stored_entries_def matrix0_def column_entries_def upt_conv_Cons)

text \<open>
  C6. Whenever the output path can be opened, the writer returns normally and leaves in
  the file exactly the concatenation of one line per stored entry of the matrix, in
  iteration order (outer index by outer index): the row index plus one, a space, the
  column index plus one, a space, the value formatted under precision 16, and a
  newline. Nothing precedes the first triplet, so there is no header; no other file
  changes. When the value format never emits a newline, the file has as many lines as
  the matrix has stored entries.
\<close>

theorem saveMatrix_writes_triplets:
  assumes "openable io filename"
  shows "fst (saveMatrix fmt filename matrix io) = None
       \<and> files (snd (saveMatrix fmt filename matrix io))
           = (files io)(filename \<mapsto> concat (map (triplet_line fmt 16) (stored_entries matrix)))
       \<and> ((\<forall>v. CHR 0x0A \<notin> set (fmt 16 v)) \<longrightarrow>
            count_newlines (concat (map (triplet_line fmt 16) (stored_entries matrix)))
              = length (stored_entries matrix))"
  using assms
  by (simp add: saveMatrix_def Let_def setprecision_def outerLoop_written stored_entries_def
      count_newlines_lines)

theorem saveMatrix_writes_triplets_witness:
  "openable io0 ''tufted_laplacian.spmat''
   \<and> fst (saveMatrix fmt0 ''tufted_laplacian.spmat'' matrix0 io0) = None
   \<and> files (snd (saveMatrix fmt0 ''tufted_laplacian.spmat'' matrix0 io0)) ''tufted_laplacian.spmat''
       = Some ''1 1 5\<newline>3 1 7\<newline>2 3 9\<newline>''
   \<and> length (stored_entries matrix0) = 3
   \<and> count_newlines ''1 1 5\<newline>3 1 7\<newline>2 3 9\<newline>'' = 3"
proof -
  have h: "openable io0 ''tufted_laplacian.spmat''"
    by (simp add: io0_def)
  have nl: "\<forall>v. CHR 0x0A \<notin> set (fmt0 16 v)"
    by (simp add: fmt0_def show_nat_no_newline)
  have "concat (map (triplet_line fmt0 16) (stored_entries matrix0))
          = ''1 1 5\<newline>3 1 7\<newline>2 3 9\<newline>''"
    by (simp add: stored_entries_matrix0 triplet_line_def fmt0_def endl_def show_nat.simps
        digit_char_def)
  with saveMatrix_writes_triplets [OF h, of fmt0 matrix0] h nl show ?thesis
    by (simp add: stored_entries_matrix0)
qed

lemma saveMatrix_not_openable:
  assumes "\<not> openable io filename"
  shows "saveMatrix fmt filename matrix io =
           (Some (RuntimeError (''failed to open output file '' @ filename)),
            print_out (''Writing sparse matrix to: '' @ filename @ endl) io)"
  using assms by (simp add: saveMatrix_def Let_def print_out_def)

lemma writeOutputs_laplacian_failure:
  assumes "writeLaplacian a" and "\<not> openable io (prefix @ ''laplacian.spmat'')"
  shows "writeOutputs fmt a prefix L M io =
           (Some (RuntimeError (''failed to open output file '' @ prefix @ ''laplacian.spmat'')),
            print_out (''Writing sparse matrix to: '' @ prefix @ ''laplacian.spmat'' @ endl) io)"
  using assms by (simp add: writeOutputs_def saveMatrix_not_openable)

lemma main_terminated_on_laplacian_failure:
  assumes "inputFilename a = Some meshName" and "loadMesh env meshName = Inr m"
    and "writeLaplacian a"
    and "\<not> openable io (outputPrefix (setOptions (toFloat env) a) @ ''laplacian.spmat'')"
  shows "fst (main env (Parsed a) io) =
           Terminated (RuntimeError (''failed to open output file ''
             @ outputPrefix (setOptions (toFloat env) a) @ ''laplacian.spmat''))
       \<and> files (snd (main env (Parsed a) io)) = files io"
  using assms
  by (simp add: main_def runPipeline_def Let_def writeOutputs_laplacian_failure print_out_def)

text \<open>
  C8. When the output path cannot be opened, the writer throws a runtime error whose
  message is "failed to open output file " followed by the file name; up to that point
  it has only announced the file on standard output, and no file (that one included) has
  changed. In \<open>main\<close> nothing catches the error: when the Laplacian file is requested and
  its path cannot be opened, the run is terminated with that error and the file system
  is as it was.
\<close>

theorem saveMatrix_open_failure:
  assumes "\<not> openable io filename"
  shows "saveMatrix fmt filename matrix io =
           (Some (RuntimeError (''failed to open output file '' @ filename)),
            print_out (''Writing sparse matrix to: '' @ filename @ endl) io)
       \<and> files (snd (saveMatrix fmt filename matrix io)) = files io
       \<and> (\<forall>env a meshName m.
             inputFilename a = Some meshName \<and> loadMesh env meshName = Inr (m::'m)
             \<and> writeLaplacian a
             \<and> filename = outputPrefix (setOptions (toFloat env) a) @ ''laplacian.spmat''
             \<longrightarrow> fst (main env (Parsed a) io)
                   = Terminated (RuntimeError (''failed to open output file '' @ filename))
                 \<and> files (snd (main env (Parsed a) io)) = files io)"
proof -
  have writer: "saveMatrix fmt filename matrix io =
           (Some (RuntimeError (''failed to open output file '' @ filename)),
            print_out (''Writing sparse matrix to: '' @ filename @ endl) io)"
    using assms by (rule saveMatrix_not_openable)
  then have untouched: "files (snd (saveMatrix fmt filename matrix io)) = files io"
    by (simp add: print_out_def)
  have run: "\<forall>env a meshName m.
             inputFilename a = Some meshName \<and> loadMesh env meshName = Inr (m::'m)
             \<and> writeLaplacian a
             \<and> filename = outputPrefix (setOptions (toFloat env) a) @ ''laplacian.spmat''
             \<longrightarrow> fst (main env (Parsed a) io)
                   = Terminated (RuntimeError (''failed to open output file '' @ filename))
                 \<and> files (snd (main env (Parsed a) io)) = files io"
  proof (intro allI impI)
    fix env :: "'m main_env" and a meshName and m :: 'm
    assume h: "inputFilename a = Some meshName \<and> loadMesh env meshName = Inr m
             \<and> writeLaplacian a
             \<and> filename = outputPrefix (setOptions (toFloat env) a) @ ''laplacian.spmat''"
    then have "\<not> openable io (outputPrefix (setOptions (toFloat env) a) @ ''laplacian.spmat'')"
      using assms by simp
    with h main_terminated_on_laplacian_failure [of a meshName env m io]
    show "fst (main env (Parsed a) io)
                   = Terminated (RuntimeError (''failed to open output file '' @ filename))
                 \<and> files (snd (main env (Parsed a) io)) = files io"
      by simp
  qed
  from writer untouched run show ?thesis
    by (intro conjI)
qed

theorem saveMatrix_open_failure_witness:
  "\<not> openable io_closed ''tufted_laplacian.spmat''
   \<and> fst (saveMatrix fmt0 ''tufted_laplacian.spmat'' matrix0 io_closed)
       = Some (RuntimeError ''failed to open output file tufted_laplacian.spmat'')
   \<and> out_stdout (snd (saveMatrix fmt0 ''tufted_laplacian.spmat'' matrix0 io_closed))
       = ''Writing sparse matrix to: tufted_laplacian.spmat\<newline>''
   \<and> files (snd (saveMatrix fmt0 ''tufted_laplacian.spmat'' matrix0 io_closed))
        ''tufted_laplacian.spmat'' = None
   \<and> fst (main env0 (Parsed args0) io_closed)
       = Terminated (RuntimeError ''failed to open output file tufted_laplacian.spmat'')
   \<and> files (snd (main env0 (Parsed args0) io_closed)) ''tufted_laplacian.spmat'' = None"
proof -
  have h: "\<not> openable io_closed ''tufted_laplacian.spmat''"
    by (simp add: io_closed_def)
  have f: "files io_closed ''tufted_laplacian.spmat'' = None \<and> out_stdout io_closed = []"
    by (simp add: io_closed_def)
  have a: "inputFilename args0 = Some ''bowtie.obj'' \<and> loadMesh env0 ''bowtie.obj'' = Inr ()
             \<and> writeLaplacian args0
             \<and> ''tufted_laplacian.spmat''
                 = outputPrefix (setOptions (toFloat env0) args0) @ ''laplacian.spmat''"
    by (simp add: args0_def env0_def setOptions_def args_get_def)
  note r = saveMatrix_open_failure [OF h, of fmt0 matrix0]
  note writer = r [THEN conjunct1]
  note run = r [THEN conjunct2, THEN conjunct2, rule_format, of args0 "''bowtie.obj''" env0 "()"]
  from run [OF a] have terminated: "fst (main env0 (Parsed args0) io_closed)
        = Terminated (RuntimeError (''failed to open output file '' @ ''tufted_laplacian.spmat''))"
    and untouched: "files (snd (main env0 (Parsed args0) io_closed)) = files io_closed"
    by simp_all
  have w1: "fst (saveMatrix fmt0 ''tufted_laplacian.spmat'' matrix0 io_closed)
       = Some (RuntimeError ''failed to open output file tufted_laplacian.spmat'')"
    by (simp add: writer)
  have w2: "out_stdout (snd (saveMatrix fmt0 ''tufted_laplacian.spmat'' matrix0 io_closed))
       = ''Writing sparse matrix to: tufted_laplacian.spmat\<newline>''"
    using f by (simp add: writer print_out_def endl_def)
  have w3: "files (snd (saveMatrix fmt0 ''tufted_laplacian.spmat'' matrix0 io_closed))
        ''tufted_laplacian.spmat'' = None"
    using f by (simp add: writer print_out_def)
  have m1: "fst (main env0 (Parsed args0) io_closed)
       = Terminated (RuntimeError ''failed to open output file tufted_laplacian.spmat'')"
    using terminated by simp
  have m2: "files (snd (main env0 (Parsed args0) io_closed)) ''tufted_laplacian.spmat'' = None"
    using untouched f by simp
  from h w1 w2 w3 m1 m2 show ?thesis
    by (intro conjI)
qed


section \<open>Properties of the command line\<close>

text \<open>
  C7, as amended. When the arguments fail to parse, the program writes the parser's
  error text, a newline and the usage text to standard error, writes nothing to standard
  output and returns 1. When they parse but the mesh name is missing, the program
  writes the usage text to standard output, writes nothing to standard error and
  returns 1.
\<close>

theorem main_usage_errors:
  "main env (ThrowsParseError what) io
     = (Returned 1, io\<lparr>out_stderr := out_stderr io @ what @ endl @ usage env\<rparr>)
   \<and> (inputFilename a = None \<longrightarrow>
        main env (Parsed a) io = (Returned 1, io\<lparr>out_stdout := out_stdout io @ usage env\<rparr>))"
  by (simp add: main_def print_err_def print_out_def EXIT_FAILURE_def)

theorem main_usage_errors_witness:
  "inputFilename args_no_mesh = None
   \<and> main env0 (Parsed args_no_mesh) io_empty
       = (Returned 1, io_empty\<lparr>out_stdout := ''usage: demo mesh''\<rparr>)
   \<and> main env0 (ThrowsParseError ''Flag could not be matched: x'') io_empty
       = (Returned 1,
          io_empty\<lparr>out_stderr := ''Flag could not be matched: x\<newline>usage: demo mesh''\<rparr>)"
proof -
  have h: "inputFilename args_no_mesh = None"
    by (simp add: args_no_mesh_def)
  have o: "out_stdout io_empty = [] \<and> out_stderr io_empty = []"
    by (simp add: io_empty_def)
  have u: "usage env0 = ''usage: demo mesh''"
    by (simp add: env0_def)
  from main_usage_errors [of env0 "''Flag could not be matched: x''" io_empty args_no_mesh] h o u
  show ?thesis
    by (simp add: endl_def)
qed

text \<open>
  The claim as stated fails when the mesh name is missing: the exit code is 1 and the
  usage text is printed, but on standard output; standard error stays empty.
\<close>

theorem missing_mesh_counterexample:
  "inputFilename args_no_mesh = None
   \<and> fst (main env0 (Parsed args_no_mesh) io_empty) = Returned 1
   \<and> out_stdout (snd (main env0 (Parsed args_no_mesh) io_empty)) = ''usage: demo mesh''
   \<and> out_stderr (snd (main env0 (Parsed args_no_mesh) io_empty)) = []"
  by (simp add: main_def args_no_mesh_def env0_def io_empty_def print_out_def EXIT_FAILURE_def)


section \<open>Properties of vertex separation and mollification\<close>

lemma separatePositions_other:
  "u \<notin> set vs \<Longrightarrow> separatePositions origVert vs pos u = pos u"
  by (induction vs arbitrary: pos) auto

text \<open>
  C5. Let \<open>origVert\<close> send every vertex of the separated mesh to the vertex it was split
  from, an original vertex being its own origin (so \<open>origVert\<close> applied twice is
  \<open>origVert\<close>). After the copy loop every vertex of the mesh holds the position that
  its originating vertex had before the loop, although the loop rewrites the table it
  reads from.
\<close>

theorem separation_preserves_positions:
  assumes "\<forall>v \<in> set vs. origVert (origVert v) = origVert v"
  shows "\<forall>v \<in> set vs. separatePositions origVert vs pos v = pos (origVert v)"
  using assms
proof (induction vs arbitrary: pos)
  case Nil
  show ?case by simp
next
  case (Cons v vs)
  let ?pos' = "pos(v := pos (origVert v))"
  from Cons.prems have idem: "\<forall>u \<in> set vs. origVert (origVert u) = origVert u"
    by simp
  have later: "\<forall>u \<in> set vs. separatePositions origVert vs ?pos' u = pos (origVert u)"
  proof
    fix u assume u: "u \<in> set vs"
    from Cons.IH [OF idem] u have "separatePositions origVert vs ?pos' u = ?pos' (origVert u)"
      by blast
    moreover have "?pos' (origVert u) = pos (origVert u)"
    proof (cases "origVert u = v")
      case True
      with idem u have "origVert v = origVert u" by auto
      with True show ?thesis by simp
    next
      case False
      then show ?thesis by simp
    qed
    ultimately show "separatePositions origVert vs ?pos' u = pos (origVert u)" by simp
  qed
  have here: "separatePositions origVert vs ?pos' v = pos (origVert v)"
  proof (cases "v \<in> set vs")
    case True
    with later show ?thesis by blast
  next
    case False
    then show ?thesis by (simp add: separatePositions_other)
  qed
  from later here show ?case by simp
qed

text \<open>
  The condition on \<open>origVert\<close> is needed because the table is rewritten while it is read:
  with a table that exchanges vertices 0 and 1, vertex 1 ends with its own position.
\<close>

lemma separatePositions_swap:
  "separatePositions swapVert [0, 1] positions0 1 = positions0 1
   \<and> positions0 (swapVert 1) \<noteq> positions0 1"
  by (simp add: swapVert_def positions0_def)

theorem separation_preserves_positions_witness:
  "origVert0 (origVert0 0) = origVert0 0 \<and> origVert0 (origVert0 1) = origVert0 1
   \<and> origVert0 (origVert0 2) = origVert0 2 \<and> origVert0 (origVert0 3) = origVert0 3
   \<and> origVert0 3 = 1 \<and> positions0 3 = 0 \<and> positions0 1 = 11
   \<and> separatePositions origVert0 [0, 1, 2, 3] positions0 3 = 11
   \<and> separatePositions origVert0 [0, 1, 2, 3] positions0 1 = 11"
proof -
  have h: "\<forall>v \<in> set [0, 1, 2, 3]. origVert0 (origVert0 v) = origVert0 v"
    by (simp add: origVert0_def)
  from separation_preserves_positions [OF h, of positions0] h show ?thesis
    by (simp add: origVert0_def positions0_def)
qed

declare float_exponent.simps [simp del]

lemma float_exponent_bound:
  "e0 \<le> float_exponent e0 x \<and> (float_exponent e0 x = e0 \<or> 2 powi (float_exponent e0 x) \<le> x)"
proof (induction e0 x rule: float_exponent.induct)
  case (1 e x)
  show ?case
  proof (cases "e < 127 \<and> 2 powi (e + 1) \<le> x")
    case True
    then have eq: "float_exponent e x = float_exponent (e + 1) x"
      by (subst float_exponent.simps) simp
    from "1.IH" [OF True] True show ?thesis
      unfolding eq by auto
  next
    case False
    then have "float_exponent e x = e"
      by (subst float_exponent.simps) auto
    then show ?thesis by simp
  qed
qed

lemma round_half_even_nonneg: "0 \<le> q \<Longrightarrow> 0 \<le> round_half_even q"
  by (auto simp: round_half_even_def Let_def)

lemma round_half_even_pos:
  assumes "1 / 2 < q"
  shows "1 \<le> round_half_even q"
proof (cases "1 \<le> q")
  case True
  then have "1 \<le> \<lfloor>q\<rfloor>" by simp
  then show ?thesis
    by (auto simp: round_half_even_def Let_def)
next
  case False
  with assms have "\<lfloor>q\<rfloor> = 0"
    by (simp add: floor_eq_iff)
  with assms show ?thesis
    by (simp add: round_half_even_def Let_def)
qed

lemma round_half_even_zero:
  assumes "0 \<le> q" and "q \<le> 1 / 2"
  shows "round_half_even q = 0"
proof -
  from assms have "\<lfloor>q\<rfloor> = 0"
    by (simp add: floor_eq_iff)
  with assms show ?thesis
    by (simp add: round_half_even_def Let_def)
qed

lemma narrow_magnitude_nonneg: "0 \<le> x \<Longrightarrow> 0 \<le> narrow_magnitude x"
  by (simp add: narrow_magnitude_def Let_def round_half_even_nonneg)

lemma narrow_magnitude_pos:
  assumes "1 / 2 ^ 150 < x"
  shows "0 < narrow_magnitude x"
proof -
  let ?e = "float_exponent (- 126) x"
  let ?ulp = "(2::real) powi (?e - 23)"
  have ulp: "0 < ?ulp" by simp
  have "1 / 2 < x / ?ulp"
  proof (cases "?e = - 126")
    case True
    then have "?ulp = 1 / 2 ^ 149"
      by (simp add: power_int_minus_divide)
    with assms show ?thesis by simp
  next
    case False
    with float_exponent_bound [of "- 126" x] have le: "2 powi ?e \<le> x" by simp
    have "2 powi ?e = ?ulp * 2 ^ 23"
      by (simp add: power_int_diff)
    with le have big: "2 ^ 23 \<le> x / ?ulp"
      using ulp by (simp add: pos_le_divide_eq mult.commute)
    have "(1::real) / 2 < 2 ^ 23" by simp
    also note big
    finally show ?thesis .
  qed
  then have "1 \<le> round_half_even (x / ?ulp)"
    by (rule round_half_even_pos)
  then have "0 < of_int (round_half_even (x / ?ulp)) * ?ulp"
    using ulp by simp
  then show ?thesis
    by (simp add: narrow_magnitude_def Let_def)
qed

lemma narrow_magnitude_underflow:
  assumes "0 \<le> x" and "x \<le> 1 / 2 ^ 150"
  shows "narrow_magnitude x = 0"
proof -
  have "x < 2 powi (- 126 + 1)"
  proof -
    have "(1::real) / 2 ^ 150 < 1 / 2 ^ 125" by simp
    moreover have "(2::real) powi (- 126 + 1) = 1 / 2 ^ 125"
      by (simp add: power_int_minus_divide)
    ultimately show ?thesis using assms by simp
  qed
  then have e: "float_exponent (- 126) x = - 126"
    by (subst float_exponent.simps) simp
  have "(2::real) powi (- 126 - 23) = 1 / 2 ^ 149"
    by (simp add: power_int_minus_divide)
  then have "x / 2 powi (- 126 - 23) = x * 2 ^ 149" by simp
  moreover have "x * 2 ^ 149 \<le> 1 / 2"
    using assms by (simp add: field_simps)
  moreover have "0 \<le> x * 2 ^ 149" using assms by simp
  ultimately have "round_half_even (x / 2 powi (- 126 - 23)) = 0"
    using round_half_even_zero by simp
  then show ?thesis
    by (simp add: narrow_magnitude_def Let_def e)
qed

text \<open>
  The sign of a narrowed value: exactly the numbers above \<open>2 powi - 150\<close> narrow to a
  positive \<open>float\<close>; a positive number at or below it narrows to zero.
\<close>

lemma narrowToFloat_pos_iff: "0 < narrowToFloat x \<longleftrightarrow> 1 / 2 ^ 150 < x"
proof (cases "x \<le> 0")
  case True
  have "(0::real) < 1 / 2 ^ 150" by simp
  with True have not: "\<not> 1 / 2 ^ 150 < x" by linarith
  from True have "narrowToFloat x \<le> 0"
    using narrow_magnitude_nonneg [of "- x"] by (auto simp: narrowToFloat_def)
  with not show ?thesis by simp
next
  case False
  then have eq: "narrowToFloat x = narrow_magnitude x"
    by (simp add: narrowToFloat_def)
  show ?thesis
  proof (cases "1 / 2 ^ 150 < x")
    case True
    then show ?thesis using narrow_magnitude_pos eq by simp
  next
    case False
    with \<open>\<not> x \<le> 0\<close> have "narrow_magnitude x = 0"
      using narrow_magnitude_underflow [of x] by simp
    with False eq show ?thesis by simp
  qed
qed

lemma narrowToFloat_default: "narrowToFloat (1 / 10 ^ 6) = 8796093 / 2 ^ 43"
  by (simp add: narrowToFloat_def narrow_magnitude_def Let_def float_exponent.simps
      round_half_even_def power_int_minus_divide)

lemma narrowToFloat_default_numeral: "narrowToFloat (1 / 1000000) = 8796093 / 8796093022208"
  using narrowToFloat_default by simp

text \<open>
  C3, as amended. The factor that line 76 tests is the \<open>float\<close> global, that is the
  command-line value (a \<open>double\<close>) narrowed to \<open>float\<close>. The stage hands the lengths to
  the mollifier exactly when that factor is strictly positive; for a factor that is zero
  or negative the lengths that reach the intrinsic geometry are the input lengths
  themselves. A factor that was not given on the command line is not zero: it is the
  declared default \<open>1e-6\<close>, whose \<open>float\<close> value is strictly positive, so the lengths are
  mollified with it. A factor \<open>x\<close> that was given is mollified with exactly when
  \<open>x > 2 powi - 150\<close>: a smaller positive \<open>x\<close> narrows to zero and leaves the lengths
  untouched.
\<close>

theorem mollification_applied_iff_positive:
  "mollifyStage mollifyIntrinsic' factor m lens
     = (if 0 < factor then mollifyIntrinsic' m lens factor else lens)
   \<and> (factor \<le> 0 \<longrightarrow> mollifyStage mollifyIntrinsic' factor m lens = lens)
   \<and> (mollifyFactorArg a = None \<longrightarrow>
        mollifyFactor (setOptions narrowToFloat a) = narrowToFloat (1 / 10 ^ 6)
        \<and> 0 < narrowToFloat (1 / 10 ^ 6)
        \<and> mollifyStage mollifyIntrinsic' (mollifyFactor (setOptions narrowToFloat a)) m lens
            = mollifyIntrinsic' m lens (narrowToFloat (1 / 10 ^ 6)))
   \<and> (\<forall>x. mollifyFactorArg a = Some x \<longrightarrow>
        mollifyFactor (setOptions narrowToFloat a) = narrowToFloat x
        \<and> (0 < narrowToFloat x \<longleftrightarrow> 1 / 2 ^ 150 < x)
        \<and> mollifyStage mollifyIntrinsic' (mollifyFactor (setOptions narrowToFloat a)) m lens
            = (if 1 / 2 ^ 150 < x then mollifyIntrinsic' m lens (narrowToFloat x) else lens))"
proof -
  have stage: "mollifyStage mollifyIntrinsic' factor m lens
     = (if 0 < factor then mollifyIntrinsic' m lens factor else lens)"
    by (simp add: mollifyStage_def)
  have zero: "factor \<le> 0 \<longrightarrow> mollifyStage mollifyIntrinsic' factor m lens = lens"
    by (simp add: mollifyStage_def)
  have dflt: "0 < narrowToFloat (1 / 10 ^ 6)"
    by (simp add: narrowToFloat_pos_iff)
  have unset: "mollifyFactorArg a = None \<longrightarrow>
        mollifyFactor (setOptions narrowToFloat a) = narrowToFloat (1 / 10 ^ 6)
        \<and> 0 < narrowToFloat (1 / 10 ^ 6)
        \<and> mollifyStage mollifyIntrinsic' (mollifyFactor (setOptions narrowToFloat a)) m lens
            = mollifyIntrinsic' m lens (narrowToFloat (1 / 10 ^ 6))"
    using dflt by (simp add: mollifyStage_def setOptions_def args_get_def)
  have given: "\<forall>x. mollifyFactorArg a = Some x \<longrightarrow>
        mollifyFactor (setOptions narrowToFloat a) = narrowToFloat x
        \<and> (0 < narrowToFloat x \<longleftrightarrow> 1 / 2 ^ 150 < x)
        \<and> mollifyStage mollifyIntrinsic' (mollifyFactor (setOptions narrowToFloat a)) m lens
            = (if 1 / 2 ^ 150 < x then mollifyIntrinsic' m lens (narrowToFloat x) else lens)"
    by (simp add: mollifyStage_def setOptions_def args_get_def narrowToFloat_pos_iff)
  from stage zero unset given show ?thesis
    by (intro conjI)
qed

theorem mollification_applied_iff_positive_witness:
  "mollifyStage specMollify 0 [0, 1, 2] flatLengths = flatLengths
   \<and> mollifyFactorArg args0 = None
   \<and> mollifyFactor (setOptions narrowToFloat args0) = 8796093 / 2 ^ 43
   \<and> mollifyStage specMollify (mollifyFactor (setOptions narrowToFloat args0)) [0, 1, 2] flatLengths
       = specMollify [0, 1, 2] flatLengths (8796093 / 2 ^ 43)
   \<and> mollifyFactorArg args_tiny = Some (1 / 2 ^ 200)
   \<and> mollifyFactor (setOptions narrowToFloat args_tiny) = narrowToFloat (1 / 2 ^ 200)
   \<and> \<not> 0 < narrowToFloat (1 / 2 ^ 200)
   \<and> mollifyStage specMollify (mollifyFactor (setOptions narrowToFloat args_tiny)) [0, 1, 2] flatLengths
       = flatLengths"
proof -
  have none: "mollifyFactorArg args0 = None"
    by (simp add: args0_def)
  have tiny: "mollifyFactorArg args_tiny = Some (1 / 2 ^ 200)"
    by (simp add: args_tiny_def)
  have small: "\<not> (1::real) / 2 ^ 150 < 1 / 2 ^ 200"
    by simp
  note r0 = mollification_applied_iff_positive [of specMollify 0 "[0, 1, 2]" flatLengths args0]
  note r1 = mollification_applied_iff_positive [of specMollify 0 "[0, 1, 2]" flatLengths args_tiny]
  have z: "mollifyStage specMollify 0 [0, 1, 2] flatLengths = flatLengths"
    using r0 [THEN conjunct2, THEN conjunct1] by simp
  note u = r0 [THEN conjunct2, THEN conjunct2, THEN conjunct1, rule_format, OF none]
  note g = r1 [THEN conjunct2, THEN conjunct2, THEN conjunct2, rule_format, OF tiny]
  have u1: "mollifyFactor (setOptions narrowToFloat args0) = 8796093 / 2 ^ 43"
    using u [THEN conjunct1] by (simp only: narrowToFloat_default)
  have u2: "mollifyStage specMollify (mollifyFactor (setOptions narrowToFloat args0)) [0, 1, 2] flatLengths
       = specMollify [0, 1, 2] flatLengths (8796093 / 2 ^ 43)"
    using u [THEN conjunct2, THEN conjunct2] by (simp only: narrowToFloat_default)
  have g1: "mollifyFactor (setOptions narrowToFloat args_tiny) = narrowToFloat (1 / 2 ^ 200)"
    using g [THEN conjunct1] .
  have g2: "\<not> 0 < narrowToFloat (1 / 2 ^ 200)"
    using g [THEN conjunct2, THEN conjunct1] small by simp
  have g3: "mollifyStage specMollify (mollifyFactor (setOptions narrowToFloat args_tiny)) [0, 1, 2] flatLengths
       = flatLengths"
    using g [THEN conjunct2, THEN conjunct2] small by simp
  from z none u1 u2 tiny g1 g2 g3 show ?thesis
    by (intro conjI)
qed

text \<open>
  The claim as stated fails for a factor that is not given: the factor is then the
  \<open>float\<close> value of \<open>1e-6\<close> and the mollifier runs. On a degenerate triangle with edge
  lengths 1, 1 and 2 the length of edge 0 reaches the intrinsic geometry as
  \<open>1 + 8796093 / 2 ^ 43 * 4 / 3\<close>, not as 1.
\<close>

theorem unset_factor_counterexample:
  "mollifyFactorArg args0 = None
   \<and> mollifyFactor (setOptions narrowToFloat args0) = 8796093 / 2 ^ 43
   \<and> mollifyStage specMollify (mollifyFactor (setOptions narrowToFloat args0)) [0, 1, 2] flatLengths 0
       = 1 + (8796093 / 2 ^ 43) * (4 / 3)
   \<and> mollifyStage specMollify (mollifyFactor (setOptions narrowToFloat args0)) [0, 1, 2] flatLengths 0
       \<noteq> flatLengths 0"
proof -
  have f: "mollifyFactor (setOptions narrowToFloat args0) = 8796093 / 2 ^ 43"
    by (simp add: args0_def setOptions_def args_get_def narrowToFloat_default_numeral)
  show ?thesis
    unfolding f
    by (simp add: args0_def mollifyStage_def specMollify_def meanEdgeLength_def flatLengths_def)
qed


section \<open>Properties of the traced polylines\<close>

lemma tInterp_pos: "0 \<le> i \<Longrightarrow> i < n \<Longrightarrow> 0 < tInterp i n"
  by (simp add: tInterp_def)

lemma tInterp_less_one: "0 \<le> i \<Longrightarrow> i < n \<Longrightarrow> tInterp i n < 1"
  by (simp add: tInterp_def)

lemma tInterp_step: "0 \<le> n \<Longrightarrow> tInterp (i + 1) n - tInterp i n = 1 / (of_int n + 1)"
  by (simp add: tInterp_def field_simps)

lemma coordSum_baryInterp:
  "coordSum (baryInterp t a b) = (1 - t) * coordSum a + t * coordSum b"
  by (simp add: coordSum_def baryInterp_def vplus_def smult_def algebra_simps)

lemma interpLoop_upto:
  "interpLoop i n sharedF a b =
     map (\<lambda>j. FacePoint sharedF (baryInterp (tInterp j n) a b)) [i..n - 1]"
proof (induction i n sharedF a b rule: interpLoop.induct)
  case (1 i n sharedF a b)
  show ?case
  proof (cases "i < n")
    case True
    then have "[i..n - 1] = i # [i + 1..n - 1]"
      by (simp add: upto_rec1)
    with True 1 show ?thesis
      by (subst interpLoop.simps) simp
  next
    case False
    then show ?thesis
      by (subst interpLoop.simps) simp
  qed
qed

lemma interpLoop_length: "length (interpLoop 0 n sharedF a b) = nat n"
  by (simp add: interpLoop_upto)

lemma interpLoop_nth:
  assumes "j < nat n"
  shows "interpLoop 0 n sharedF a b ! j = FacePoint sharedF (baryInterp (tInterp (int j) n) a b)"
proof -
  have "[0..n - 1] ! j = int j"
    using assms by (simp add: nth_upto)
  moreover have "j < length [0..n - 1]"
    using assms by simp
  ultimately show ?thesis
    by (simp add: interpLoop_upto)
qed

lemma segmentInterp_eq:
  "segmentInterp ext n pA pB =
     map (\<lambda>i. FacePoint (sharedFace ext pA pB)
            (baryInterp (tInterp i n) (inFace ext pA (sharedFace ext pA pB))
               (inFace ext pB (sharedFace ext pA pB)))) [0..n - 1]"
  by (simp add: segmentInterp_def Let_def interpLoop_upto)

text \<open>
  C4. Let \<open>pA\<close> and \<open>pB\<close> be consecutive traced points, \<open>A\<close> and \<open>B\<close> their coordinates in
  the shared face, and \<open>n\<close> the number of points per segment (below the largest \<open>int\<close>,
  where the counter arithmetic is exact). Lines 134-148 emit, for \<open>i = 0, ..., n - 1\<close> in
  this order, the face point of the shared face whose coordinates are the blend
  \<open>(1 - t) * A + t * B\<close> at \<open>t = (i + 1) / (n + 1)\<close>. Each such \<open>t\<close> lies strictly between 0
  and 1 and consecutive parameters differ by \<open>1 / (n + 1)\<close>. Over the reals, when the
  coordinates of \<open>A\<close> and of \<open>B\<close> each sum to 1, so do those of every blend.
\<close>

theorem interpolation_parameters:
  assumes "n < INT_MAX"
  shows "segmentInterp ext n pA pB
           = map (\<lambda>i. FacePoint (sharedFace ext pA pB)
                    (baryInterp (tInterp i n) (inFace ext pA (sharedFace ext pA pB))
                       (inFace ext pB (sharedFace ext pA pB)))) [0..n - 1]
       \<and> (\<forall>i. 0 \<le> i \<and> i < n \<longrightarrow>
             tInterp i n = (of_int i + 1) / (of_int n + 1)
           \<and> 0 < tInterp i n \<and> tInterp i n < 1
           \<and> tInterp (i + 1) n - tInterp i n = 1 / (of_int n + 1))
       \<and> (\<forall>t a b. baryInterp t a b = vplus (smult (1 - t) a) (smult t b))
       \<and> (\<forall>t a b. coordSum a = 1 \<and> coordSum b = 1 \<longrightarrow> coordSum (baryInterp t a b) = 1)"
proof -
  have list: "segmentInterp ext n pA pB
           = map (\<lambda>i. FacePoint (sharedFace ext pA pB)
                    (baryInterp (tInterp i n) (inFace ext pA (sharedFace ext pA pB))
                       (inFace ext pB (sharedFace ext pA pB)))) [0..n - 1]"
    by (rule segmentInterp_eq)
  have param: "\<forall>i. 0 \<le> i \<and> i < n \<longrightarrow>
             tInterp i n = (of_int i + 1) / (of_int n + 1)
           \<and> 0 < tInterp i n \<and> tInterp i n < 1
           \<and> tInterp (i + 1) n - tInterp i n = 1 / (of_int n + 1)"
  proof (intro allI impI)
    fix i :: int
    assume i: "0 \<le> i \<and> i < n"
    then have "0 \<le> n" by simp
    then have "tInterp (i + 1) n - tInterp i n = 1 / (of_int n + 1)"
      by (rule tInterp_step)
    moreover have "tInterp i n = (of_int i + 1) / (of_int n + 1)"
      by (simp add: tInterp_def)
    ultimately show "tInterp i n = (of_int i + 1) / (of_int n + 1)
           \<and> 0 < tInterp i n \<and> tInterp i n < 1
           \<and> tInterp (i + 1) n - tInterp i n = 1 / (of_int n + 1)"
      using i tInterp_pos [of i n] tInterp_less_one [of i n] by simp
  qed
  have blend: "\<forall>t a b. baryInterp t a b = vplus (smult (1 - t) a) (smult t b)"
    by (simp add: baryInterp_def)
  have sum: "\<forall>t a b. coordSum a = 1 \<and> coordSum b = 1 \<longrightarrow> coordSum (baryInterp t a b) = 1"
    by (simp add: coordSum_baryInterp)
  from list param blend sum show ?thesis
    by (intro conjI)
qed

theorem interpolation_parameters_witness:
  "3 < INT_MAX
   \<and> segmentInterp ext0 3 (VertexPoint 0) (VertexPoint 1)
       = [FacePoint 0 \<lparr>vec_x = 3 / 4, vec_y = 1 / 4, vec_z = 0\<rparr>,
          FacePoint 0 \<lparr>vec_x = 1 / 2, vec_y = 1 / 2, vec_z = 0\<rparr>,
          FacePoint 0 \<lparr>vec_x = 1 / 4, vec_y = 3 / 4, vec_z = 0\<rparr>]
   \<and> tInterp 0 3 = 1 / 4 \<and> tInterp 1 3 = 1 / 2 \<and> tInterp 2 3 = 3 / 4
   \<and> coordSum (corner 0) = 1 \<and> coordSum (corner 1) = 1
   \<and> coordSum (baryInterp (tInterp 2 3) (corner 0) (corner 1)) = 1"
proof -
  have h: "3 < INT_MAX" by (simp add: INT_MAX_def)
  have c: "coordSum (corner 0) = 1 \<and> coordSum (corner 1) = 1"
    by (simp add: coordSum_def corner_def)
  have u: "[0..3 - 1] = [0, 1, (2::int)]"
    by (simp add: upto_rec1)
  note r = interpolation_parameters [OF h, of ext0 "VertexPoint 0" "VertexPoint 1"]
  have pts: "segmentInterp ext0 3 (VertexPoint 0) (VertexPoint 1)
       = [FacePoint 0 \<lparr>vec_x = 3 / 4, vec_y = 1 / 4, vec_z = 0\<rparr>,
          FacePoint 0 \<lparr>vec_x = 1 / 2, vec_y = 1 / 2, vec_z = 0\<rparr>,
          FacePoint 0 \<lparr>vec_x = 1 / 4, vec_y = 3 / 4, vec_z = 0\<rparr>]"
    using r [THEN conjunct1] u
    by (simp add: ext0_def tInterp_def baryInterp_def smult_def vplus_def corner_def)
  have ts: "tInterp 0 3 = 1 / 4 \<and> tInterp 1 3 = 1 / 2 \<and> tInterp 2 3 = 3 / 4"
    using r [THEN conjunct2, THEN conjunct1, rule_format, of 0]
      r [THEN conjunct2, THEN conjunct1, rule_format, of 1]
      r [THEN conjunct2, THEN conjunct1, rule_format, of 2]
    by simp
  have s: "coordSum (baryInterp (tInterp 2 3) (corner 0) (corner 1)) = 1"
    using r [THEN conjunct2, THEN conjunct2, THEN conjunct2, rule_format,
        of "corner 0" "corner 1" "tInterp 2 3"] c
    by simp
  from h pts ts c s show ?thesis
    by (intro conjI) simp_all
qed

lemma segmentInterp_length: "length (segmentInterp ext n pA pB) = nat n"
  by (simp add: segmentInterp_def Let_def interpLoop_length)

lemma segmentLoop_length:
  "length (segmentLoop ext n i points) = (length points - 1 - i) * (nat n + 1)"
proof (induction ext n i points rule: segmentLoop.induct)
  case (1 ext n i points)
  let ?m = "nat n + 1"
  let ?d = "length points - 1 - (i + 1)"
  show ?case
  proof (cases "i + 1 < length points")
    case True
    then have d: "length points - 1 - i = Suc ?d" by simp
    have "length (segmentLoop ext n i points)
            = ?m + length (segmentLoop ext n (i + 1) points)"
      using True by (subst segmentLoop.simps) (simp add: segmentInterp_length)
    also have "\<dots> = ?m + ?d * ?m"
      using "1.IH" [OF True] by simp
    also have "\<dots> = Suc ?d * ?m"
      by (simp only: mult_Suc)
    finally show ?thesis
      by (simp only: d)
  next
    case False
    then show ?thesis
      by (subst segmentLoop.simps) simp
  qed
qed

lemma segmentLoop_nth:
  assumes "i \<le> k" and "k + 1 < length points"
  shows "segmentLoop ext n i points ! ((k - i) * (nat n + 1) + nat n) = points ! (k + 1)
       \<and> (\<forall>j < nat n. segmentLoop ext n i points ! ((k - i) * (nat n + 1) + j)
             = segmentInterp ext n (points ! k) (points ! (k + 1)) ! j)"
  using assms
proof (induction ext n i points rule: segmentLoop.induct)
  case (1 ext n i points)
  let ?m = "nat n + 1"
  let ?I = "segmentInterp ext n (points ! i) (points ! (i + 1))"
  let ?rest = "segmentLoop ext n (i + 1) points"
  from 1 have lt: "i + 1 < length points" by simp
  then have unfold: "segmentLoop ext n i points = ?I @ [points ! (i + 1)] @ ?rest"
    by (subst segmentLoop.simps) simp
  have len: "length ?I = nat n" by (simp add: segmentInterp_length)
  show ?case
  proof (cases "k = i")
    case True
    have a: "(?I @ [points ! (i + 1)] @ ?rest) ! nat n = points ! (i + 1)"
      using len by (simp add: nth_append)
    have b: "\<forall>j < nat n. (?I @ [points ! (i + 1)] @ ?rest) ! j = ?I ! j"
      using len by (simp add: nth_append)
    from a b show ?thesis
      unfolding unfold True by simp
  next
    case False
    with 1 have k: "i + 1 \<le> k" by simp
    then have e: "k - i = Suc (k - (i + 1))" by simp
    have split: "(k - i) * ?m = ?m + (k - (i + 1)) * ?m"
      unfolding e by (rule mult_Suc)
    have IH: "?rest ! ((k - (i + 1)) * ?m + nat n) = points ! (k + 1)
       \<and> (\<forall>j < nat n. ?rest ! ((k - (i + 1)) * ?m + j)
             = segmentInterp ext n (points ! k) (points ! (k + 1)) ! j)"
      using "1.IH" [OF lt k "1.prems"(2)] .
    have skip: "\<And>x. (?I @ [points ! (i + 1)] @ ?rest) ! (?m + x) = ?rest ! x"
      using len by (simp add: nth_append)
    have a: "(k - i) * ?m + nat n = ?m + ((k - (i + 1)) * ?m + nat n)"
      using split by simp
    have b: "\<And>j. (k - i) * ?m + j = ?m + ((k - (i + 1)) * ?m + j)"
      using split by simp
    show ?thesis
      unfolding unfold a
      using IH skip b by metis
  qed
qed

lemma segmentLoop_last:
  assumes "i + 1 < length points"
  shows "segmentLoop ext n i points \<noteq> [] \<and> last (segmentLoop ext n i points) = last points"
  using assms
proof (induction ext n i points rule: segmentLoop.induct)
  case (1 ext n i points)
  let ?I = "segmentInterp ext n (points ! i) (points ! (i + 1))"
  let ?rest = "segmentLoop ext n (i + 1) points"
  from 1 have lt: "i + 1 < length points" by simp
  then have unfold: "segmentLoop ext n i points = ?I @ [points ! (i + 1)] @ ?rest"
    by (subst segmentLoop.simps) simp
  show ?case
  proof (cases "i + 1 + 1 < length points")
    case True
    from "1.IH" [OF lt True] show ?thesis
      unfolding unfold by simp
  next
    case False
    then have "?rest = []"
      by (subst segmentLoop.simps) simp
    moreover from lt have "points \<noteq> []" by auto
    then have "last points = points ! (length points - 1)"
      by (rule last_conv_nth)
    moreover from False lt have "length points - 1 = i + 1" by simp
    ultimately have "points ! (i + 1) = last points \<and> ?rest = []"
      by simp
    then show ?thesis
      unfolding unfold by simp
  qed
qed

lemma buildLine_ends:
  assumes "points \<noteq> []"
  shows "buildLine ext n points = Inr (hd points # segmentLoop ext n 0 points)
       \<and> hd (hd points # segmentLoop ext n 0 points) = hd points
       \<and> last (hd points # segmentLoop ext n 0 points) = last points"
proof (cases "0 + 1 < length points")
  case True
  from segmentLoop_last [OF True, of ext n] show ?thesis
    using assms by (simp add: buildLine_def)
next
  case False
  with assms have one: "length points = 1"
    by (cases points) auto
  then have "segmentLoop ext n 0 points = []"
    by (subst segmentLoop.simps) simp
  moreover from one have "hd points = last points"
    by (cases points) auto
  ultimately show ?thesis
    using assms by (simp add: buildLine_def)
qed

lemma traceNudged_eq:
  "traceNudged ext tri e = (traceHalfedge ext (nudgeLength tri e) (edge_halfedge tri e) False, tri)"
  by (simp add: traceNudged_def Let_def nudgeLength_def restoreLength_def)

text \<open>
  When \<open>pointsPerTriEdge\<close> is zero or negative the loop of line 142 does not run, and
  the line is the list of traced points.
\<close>

lemma segmentLoop_no_interp:
  assumes "n \<le> 0"
  shows "segmentLoop ext n i points = drop (i + 1) points"
  using assms
proof (induction ext n i points rule: segmentLoop.induct)
  case (1 ext n i points)
  show ?case
  proof (cases "i + 1 < length points")
    case True
    have "segmentInterp ext n (points ! i) (points ! (i + 1)) = []"
      using segmentInterp_length [of ext n "points ! i" "points ! (i + 1)"] "1.prems"
      by simp
    moreover have "drop (i + 1) points = points ! (i + 1) # drop (i + 1 + 1) points"
      using True by (simp add: Cons_nth_drop_Suc)
    ultimately show ?thesis
      using True "1.IH" [OF True "1.prems"] by (subst segmentLoop.simps) simp
  next
    case False
    then show ?thesis
      by (subst segmentLoop.simps) simp
  qed
qed

lemma traceEdge_no_interp:
  assumes "fst (traceNudged ext tri e) = points" and "points \<noteq> []" and "n \<le> 0"
  shows "traceEdge ext n tri e = Inr (points, tri)"
proof -
  have "hd points # drop (0 + 1) points = points"
    using assms(2) by (cases points) simp_all
  then show ?thesis
    using assms by (simp add: traceEdge_def traceNudged_eq buildLine_def segmentLoop_no_interp)
qed

lemma traceEdge_state:
  assumes "traceEdge ext n tri e = Inr (line, tri')"
  shows "tri' = tri"
  using assms by (auto simp: traceEdge_def traceNudged_eq split: sum.splits)

lemma edgeLoop_state:
  assumes "edgeLoop ext p es tri lines = Inr (lines', tri')"
  shows "tri' = tri"
  using assms
proof (induction es arbitrary: tri lines)
  case Nil
  then show ?case by simp
next
  case (Cons e es)
  then obtain line tri1 where
    step: "traceEdge ext (pointsPerTriEdge p) tri e = Inr (line, tri1)"
    and rest: "edgeLoop ext p es tri1 (lines @ [map (queryPoint ext (bubbleScale p)) line]) = Inr (lines', tri')"
    by (auto split: sum.splits)
  from traceEdge_state [OF step] have "tri1 = tri" .
  moreover from Cons.IH [OF rest] have "tri' = tri1" .
  ultimately show ?case by simp
qed

text \<open>
  The whole edge loop, when no trace comes back empty: the triangulation is handed back
  as it was, and the curves are the lines already present followed by one line per
  edge, each the image under \<open>queryPoint\<close> of that edge's surface points.
\<close>

lemma edgeLoop_eq:
  assumes "\<forall>e \<in> set es. traceHalfedge ext (nudgeLength tri e) (edge_halfedge tri e) False \<noteq> []"
  shows "edgeLoop ext p es tri lines =
           Inr (lines @ map (\<lambda>e. map (queryPoint ext (bubbleScale p))
                  (let points = traceHalfedge ext (nudgeLength tri e) (edge_halfedge tri e) False
                   in hd points # segmentLoop ext (pointsPerTriEdge p) 0 points)) es, tri)"
  using assms
  by (induction es arbitrary: lines) (simp_all add: traceEdge_def traceNudged_eq buildLine_def Let_def)

text \<open>
  C2. For every edge and every triangulation, lines 119-124 write the stored length
  times 0.999 into the entry of that edge (and nothing else), call the tracer on the
  triangulation so changed, and write the saved value back: the triangulation left
  behind, and with it the table of intrinsic edge lengths, equals the one before the
  trace. The value written back is the saved copy, not the result of a computation.
\<close>

theorem nudge_and_restore:
  "snd (traceNudged ext tri e) = tri
   \<and> intrinsicEdgeLengths (snd (traceNudged ext tri e)) = intrinsicEdgeLengths tri
   \<and> fst (traceNudged ext tri e) = traceHalfedge ext (nudgeLength tri e) (edge_halfedge tri e) False
   \<and> intrinsicEdgeLengths (nudgeLength tri e)
       = (intrinsicEdgeLengths tri)(e := intrinsicEdgeLengths tri e * 0.999)"
  by (simp add: traceNudged_eq nudgeLength_def)

theorem nudge_and_restore_instance:
  "fst (traceNudged ext0 tri0 0) = [VertexPoint 0, EdgePoint 0 (999 / 1000), VertexPoint 1]
   \<and> intrinsicEdgeLengths (nudgeLength tri0 0) 0 = 999 / 1000
   \<and> intrinsicEdgeLengths (snd (traceNudged ext0 tri0 0)) 0 = 1"
  using nudge_and_restore [of ext0 tri0 0]
  by (simp add: ext0_def tri0_def nudgeLength_def)

text \<open>
  C1, as amended. For every edge whose trace (taken on the triangulation with the
  edge's length shortened to 0.999 of its value, and with the trimming flag off) is not
  empty, the body of the edge loop succeeds, and the line it pushes starts with the
  first traced point and ends with the last traced point, whatever is interpolated in
  between. The generator adds no point of its own at either end (line 154 is commented
  out): the line ends at the end vertex only when the shortened trace itself does.
\<close>

theorem traced_polyline_forwards_ends:
  assumes "traceHalfedge ext (nudgeLength tri e) (edge_halfedge tri e) False = points"
    and "points \<noteq> []"
  shows "\<exists>line. traceEdge ext n tri e = Inr (line, tri)
           \<and> hd line = hd points \<and> last line = last points"
  using buildLine_ends [OF assms(2), of ext n] assms(1)
  by (simp add: traceEdge_def traceNudged_eq)

theorem traced_polyline_forwards_ends_witness:
  "traceHalfedge ext0 (nudgeLength tri0 1) (edge_halfedge tri0 1) False
     = [VertexPoint 1, EdgePoint 1 (999 / 1000), VertexPoint 2]
   \<and> (\<exists>line. traceEdge ext0 1 tri0 1 = Inr (line, tri0)
         \<and> hd line = VertexPoint 1 \<and> last line = VertexPoint 2)"
proof -
  have h: "traceHalfedge ext0 (nudgeLength tri0 1) (edge_halfedge tri0 1) False
     = [VertexPoint 1, EdgePoint 1 (999 / 1000), VertexPoint 2]"
    by (simp add: ext0_def tri0_def nudgeLength_def)
  have ne: "[VertexPoint 1, EdgePoint 1 (999 / 1000), VertexPoint 2] \<noteq> []"
    by simp
  from traced_polyline_forwards_ends [OF h ne, of 1] h show ?thesis by simp
qed

text \<open>
  The claim as stated fails for a tracer that does what lines 116-118 rely on: called
  without trimming on an edge whose stored length was shortened, it stops in the face
  short of the end vertex. On the single triangle the line of edge 0 then ends with a
  face point at 0.999 of the way, while the end vertex of the edge is vertex 1.
\<close>

theorem early_stop_counterexample:
  "traceEdge extEarly 1 tri0 0
     = Inr ([VertexPoint 0,
             FacePoint 0 \<lparr>vec_x = 1001 / 2000, vec_y = 999 / 2000, vec_z = 0\<rparr>,
             FacePoint 0 \<lparr>vec_x = 1 / 1000, vec_y = 999 / 1000, vec_z = 0\<rparr>], tri0)
   \<and> he_vertex tri0 (he_twin tri0 (edge_halfedge tri0 0)) = 1
   \<and> last [VertexPoint 0,
            FacePoint 0 \<lparr>vec_x = 1001 / 2000, vec_y = 999 / 2000, vec_z = 0\<rparr>,
            FacePoint 0 \<lparr>vec_x = 1 / 1000, vec_y = 999 / 1000, vec_z = 0\<rparr>]
       \<noteq> VertexPoint (he_vertex tri0 (he_twin tri0 (edge_halfedge tri0 0)))"
proof -
  have pts: "traceHalfedge extEarly (nudgeLength tri0 0) (edge_halfedge tri0 0) False
     = [VertexPoint 0, FacePoint 0 \<lparr>vec_x = 1 / 1000, vec_y = 999 / 1000, vec_z = 0\<rparr>]"
    by (simp add: extEarly_def ext0_def tri0_def nudgeLength_def Let_def baryInterp_def
        smult_def vplus_def corner_def)
  have sf: "sharedFace extEarly = (\<lambda>pA pB. 0) \<and> inFace extEarly = (\<lambda>p f. coords0 p)"
    by (simp add: extEarly_def ext0_def)
  have run: "traceEdge extEarly 1 tri0 0
     = Inr ([VertexPoint 0,
             FacePoint 0 \<lparr>vec_x = 1001 / 2000, vec_y = 999 / 2000, vec_z = 0\<rparr>,
             FacePoint 0 \<lparr>vec_x = 1 / 1000, vec_y = 999 / 1000, vec_z = 0\<rparr>], tri0)"
    by (simp add: traceEdge_def traceNudged_eq pts buildLine_def segmentLoop.simps
        segmentInterp_def interpLoop.simps Let_def sf tInterp_def
        baryInterp_def smult_def vplus_def corner_def)
  have v: "he_vertex tri0 (he_twin tri0 (edge_halfedge tri0 0)) = 1"
    by (simp add: tri0_def)
  from run v show ?thesis by simp
qed

text \<open>
  C10. Let the trace of an edge yield the points \<open>p\<^sub>0, ..., p\<^sub>m\<close> (at least two), and let
  \<open>pointsPerTriEdge = n\<close> with \<open>0 \<le> n\<close> below the largest \<open>int\<close>. The body of the edge loop
  then succeeds with a line of \<open>1 + m * (n + 1)\<close> points. The traced point \<open>p\<^sub>k\<close> stands at
  position \<open>k * (n + 1)\<close>, so the traced points appear once each and in order, and the
  \<open>n\<close> positions strictly between \<open>p\<^sub>k\<close> and its successor hold the interpolated points of
  that segment, in the order of their parameters.
\<close>

theorem traced_polyline_layout:
  assumes "fst (traceNudged ext tri e) = points" and "2 \<le> length points"
    and "0 \<le> n" and "n < INT_MAX"
  shows "\<exists>line. traceEdge ext n tri e = Inr (line, tri)
           \<and> int (length line) = 1 + (int (length points) - 1) * (n + 1)
           \<and> (\<forall>k < length points. line ! (k * (nat n + 1)) = points ! k)
           \<and> (\<forall>k j. k + 1 < length points \<and> j < nat n \<longrightarrow>
                 line ! (k * (nat n + 1) + 1 + j)
                   = FacePoint (sharedFace ext (points ! k) (points ! (k + 1)))
                       (baryInterp (tInterp (int j) n)
                          (inFace ext (points ! k) (sharedFace ext (points ! k) (points ! (k + 1))))
                          (inFace ext (points ! (k + 1)) (sharedFace ext (points ! k) (points ! (k + 1))))))"
proof -
  let ?m = "nat n + 1"
  let ?line = "hd points # segmentLoop ext n 0 points"
  from assms(2) have ne: "points \<noteq> []" by auto
  have pts: "traceHalfedge ext (nudgeLength tri e) (edge_halfedge tri e) False = points"
    using assms(1) by (simp add: traceNudged_eq)
  have run: "traceEdge ext n tri e = Inr (?line, tri)"
    using ne pts by (simp add: traceEdge_def traceNudged_eq buildLine_def)
  have "length ?line = 1 + (length points - 1) * ?m"
    by (simp add: segmentLoop_length)
  then have "int (length ?line) = 1 + int (length points - 1) * int ?m"
    by (simp only: of_nat_add of_nat_mult of_nat_1)
  moreover have "int (length points - 1) = int (length points) - 1"
    using ne by (simp add: of_nat_diff Suc_leI)
  moreover have "int ?m = n + 1"
    using assms(3) by simp
  ultimately have len: "int (length ?line) = 1 + (int (length points) - 1) * (n + 1)"
    by simp
  have traced: "\<forall>k < length points. ?line ! (k * ?m) = points ! k"
  proof (intro allI impI)
    fix k assume k: "k < length points"
    show "?line ! (k * ?m) = points ! k"
    proof (cases k)
      case 0
      then show ?thesis using ne by (simp add: hd_conv_nth)
    next
      case (Suc k')
      with k have k': "k' + 1 < length points" by simp
      have "k * ?m = Suc ((k' - 0) * ?m + nat n)"
        using Suc by simp
      then have "?line ! (k * ?m) = segmentLoop ext n 0 points ! ((k' - 0) * ?m + nat n)"
        by simp
      also have "\<dots> = points ! (k' + 1)"
        using segmentLoop_nth [of 0 k' points ext n] k' by simp
      finally show ?thesis using Suc by simp
    qed
  qed
  have between: "\<forall>k j. k + 1 < length points \<and> j < nat n \<longrightarrow>
                 ?line ! (k * ?m + 1 + j)
                   = FacePoint (sharedFace ext (points ! k) (points ! (k + 1)))
                       (baryInterp (tInterp (int j) n)
                          (inFace ext (points ! k) (sharedFace ext (points ! k) (points ! (k + 1))))
                          (inFace ext (points ! (k + 1)) (sharedFace ext (points ! k) (points ! (k + 1)))))"
  proof (intro allI impI)
    fix k j assume kj: "k + 1 < length points \<and> j < nat n"
    have "?line ! (k * ?m + 1 + j) = segmentLoop ext n 0 points ! ((k - 0) * ?m + j)"
      by simp
    also have "\<dots> = segmentInterp ext n (points ! k) (points ! (k + 1)) ! j"
      using segmentLoop_nth [of 0 k points ext n] kj by simp
    also have "\<dots> = FacePoint (sharedFace ext (points ! k) (points ! (k + 1)))
                       (baryInterp (tInterp (int j) n)
                          (inFace ext (points ! k) (sharedFace ext (points ! k) (points ! (k + 1))))
                          (inFace ext (points ! (k + 1)) (sharedFace ext (points ! k) (points ! (k + 1)))))"
      using kj by (simp add: segmentInterp_def Let_def interpLoop_nth)
    finally show "?line ! (k * ?m + 1 + j)
                   = FacePoint (sharedFace ext (points ! k) (points ! (k + 1)))
                       (baryInterp (tInterp (int j) n)
                          (inFace ext (points ! k) (sharedFace ext (points ! k) (points ! (k + 1))))
                          (inFace ext (points ! (k + 1)) (sharedFace ext (points ! k) (points ! (k + 1)))))" .
  qed
  from run len traced between show ?thesis by blast
qed

theorem traced_polyline_layout_witness:
  "fst (traceNudged ext0 tri0 0) = [VertexPoint 0, EdgePoint 0 (999 / 1000), VertexPoint 1]
   \<and> (0::int) \<le> 1 \<and> 1 < INT_MAX
   \<and> (\<exists>line. traceEdge ext0 1 tri0 0 = Inr (line, tri0) \<and> length line = 5
         \<and> line ! 0 = VertexPoint 0
         \<and> line ! 1 = FacePoint 0 \<lparr>vec_x = 1001 / 2000, vec_y = 999 / 2000, vec_z = 0\<rparr>
         \<and> line ! 2 = EdgePoint 0 (999 / 1000)
         \<and> line ! 4 = VertexPoint 1)"
proof -
  let ?points = "[VertexPoint 0, EdgePoint 0 (999 / 1000), VertexPoint 1]"
  have h1: "fst (traceNudged ext0 tri0 0) = ?points"
    by (simp add: traceNudged_eq ext0_def tri0_def nudgeLength_def)
  have h2: "2 \<le> length ?points" by simp
  have h3: "(0::int) \<le> 1" by simp
  have h4: "1 < INT_MAX" by (simp add: INT_MAX_def)
  from traced_polyline_layout [OF h1 h2 h3 h4] obtain line where
    run: "traceEdge ext0 1 tri0 0 = Inr (line, tri0)"
    and len: "int (length line) = 1 + (int (length ?points) - 1) * (1 + 1)"
    and traced: "\<forall>k < length ?points. line ! (k * (nat 1 + 1)) = ?points ! k"
    and between: "\<forall>k j. k + 1 < length ?points \<and> j < nat 1 \<longrightarrow>
                 line ! (k * (nat 1 + 1) + 1 + j)
                   = FacePoint (sharedFace ext0 (?points ! k) (?points ! (k + 1)))
                       (baryInterp (tInterp (int j) 1)
                          (inFace ext0 (?points ! k) (sharedFace ext0 (?points ! k) (?points ! (k + 1))))
                          (inFace ext0 (?points ! (k + 1)) (sharedFace ext0 (?points ! k) (?points ! (k + 1)))))"
    by blast
  from len have l: "length line = 5" by simp
  have t: "line ! 0 = VertexPoint 0" "line ! 2 = EdgePoint 0 (999 / 1000)" "line ! 4 = VertexPoint 1"
    using traced [rule_format, of 0] traced [rule_format, of 1] traced [rule_format, of 2]
    by (simp_all add: eval_nat_numeral)
  have "line ! (0 * (nat 1 + 1) + 1 + 0)
                   = FacePoint (sharedFace ext0 (?points ! 0) (?points ! (0 + 1)))
                       (baryInterp (tInterp (int 0) 1)
                          (inFace ext0 (?points ! 0) (sharedFace ext0 (?points ! 0) (?points ! (0 + 1))))
                          (inFace ext0 (?points ! (0 + 1)) (sharedFace ext0 (?points ! 0) (?points ! (0 + 1)))))"
    using between [rule_format, of 0 0] by simp
  then have b: "line ! 1 = FacePoint 0 \<lparr>vec_x = 1001 / 2000, vec_y = 999 / 2000, vec_z = 0\<rparr>"
    by (simp add: ext0_def tInterp_def baryInterp_def smult_def vplus_def corner_def)
  from h1 h3 h4 run l t b show ?thesis by blast
qed

lemma rebuiltScene_eq:
  "addSurfaceGraphQuantity ''bubble tufted cover'' ''intrinsic edges'' (tracedCurves ext p tri)
     (registerSurfaceMesh ''bubble tufted cover''
        (subdivideRounded ext (subdivLevel p) (bubbleScale p)) sc)
   = Inr (rebuiltScene ext p tri sc)"
  by (simp add: addSurfaceGraphQuantity_def registerSurfaceMesh_def rebuiltScene_def)

lemma generateVisualization_eq:
  assumes "\<forall>e \<in> set (mesh_edges tri).
             traceHalfedge ext (nudgeLength tri e) (edge_halfedge tri e) False \<noteq> []"
  shows "generateVisualization ext p tri sc = Inr (rebuiltScene ext p tri sc, tri)"
proof -
  have "edgeLoop ext p (mesh_edges tri) tri [] = Inr (tracedCurves ext p tri, tri)"
    using edgeLoop_eq [OF assms, of p "[]"] by (simp add: tracedCurves_def)
  then show ?thesis
    by (simp add: generateVisualization_def Let_def rebuiltScene_eq)
qed

text \<open>
  C9. Let every trace of the triangulation return at least one point. A run of the
  generator then succeeds, hands the triangulation back as it received it, and leaves
  the registry with "bubble tufted cover" replaced by the freshly subdivided surface
  carrying, as its only quantity "intrinsic edges", one curve per edge computed from
  the triangulation and the parameters alone. What the name held before the run (an
  earlier surface, its curves, other quantities) does not show in the result, so the
  same triangulation and parameters give the same surface and curves from any two
  registries, and running the generator again on its own result changes nothing.
\<close>

theorem regeneration_repeatable:
  assumes "\<forall>e \<in> set (mesh_edges tri).
             traceHalfedge ext (nudgeLength tri e) (edge_halfedge tri e) False \<noteq> []"
  shows "\<exists>sc'. generateVisualization ext p tri sc = Inr (sc', tri)
           \<and> sc' ''bubble tufted cover''
               = Some \<lparr>meshData = subdivideRounded ext (subdivLevel p) (bubbleScale p),
                       graphQuantities = [''intrinsic edges'' \<mapsto> tracedCurves ext p tri]\<rparr>
           \<and> (\<forall>name. name \<noteq> ''bubble tufted cover'' \<longrightarrow> sc' name = sc name)
           \<and> (\<forall>other. \<exists>sc''. generateVisualization ext p tri other = Inr (sc'', tri)
                  \<and> sc'' ''bubble tufted cover'' = sc' ''bubble tufted cover'')
           \<and> generateVisualization ext p tri sc' = Inr (sc', tri)"
proof -
  let ?sc' = "rebuiltScene ext p tri sc"
  have run: "generateVisualization ext p tri sc = Inr (?sc', tri)"
    using assms by (rule generateVisualization_eq)
  have entry: "?sc' ''bubble tufted cover''
               = Some \<lparr>meshData = subdivideRounded ext (subdivLevel p) (bubbleScale p),
                       graphQuantities = [''intrinsic edges'' \<mapsto> tracedCurves ext p tri]\<rparr>"
    by (simp add: rebuiltScene_def)
  have frame: "\<forall>name. name \<noteq> ''bubble tufted cover'' \<longrightarrow> ?sc' name = sc name"
    by (simp add: rebuiltScene_def)
  have any: "\<forall>other. \<exists>sc''. generateVisualization ext p tri other = Inr (sc'', tri)
                  \<and> sc'' ''bubble tufted cover'' = ?sc' ''bubble tufted cover''"
  proof
    fix other
    have "generateVisualization ext p tri other = Inr (rebuiltScene ext p tri other, tri)"
      using assms by (rule generateVisualization_eq)
    moreover have "rebuiltScene ext p tri other ''bubble tufted cover''
                     = ?sc' ''bubble tufted cover''"
      by (simp add: rebuiltScene_def)
    ultimately show "\<exists>sc''. generateVisualization ext p tri other = Inr (sc'', tri)
                  \<and> sc'' ''bubble tufted cover'' = ?sc' ''bubble tufted cover''"
      by blast
  qed
  have "rebuiltScene ext p tri ?sc' = ?sc'"
    by (simp add: rebuiltScene_def)
  then have again: "generateVisualization ext p tri ?sc' = Inr (?sc', tri)"
    using generateVisualization_eq [OF assms, of p ?sc'] by simp
  from run entry frame any again show ?thesis
    by blast
qed

lemma tracedCurves_extSoup:
  "length (tracedCurves extSoup params0 tri0) = 3
   \<and> hd (tracedCurves extSoup params0 tri0)
       = [corner 0,
          \<lparr>vec_x = 1001 / 2000, vec_y = 999 / 2000, vec_z = 0\<rparr>,
          \<lparr>vec_x = 1 / 1000, vec_y = 999 / 1000, vec_z = 0\<rparr>,
          \<lparr>vec_x = 1 / 2000, vec_y = 1999 / 2000, vec_z = 0\<rparr>,
          corner 1]"
  by (simp add: tracedCurves_def extSoup_def ext0_def params0_def tri0_def nudgeLength_def
      Let_def segmentLoop.simps segmentInterp_def interpLoop.simps tInterp_def baryInterp_def
      smult_def vplus_def corner_def)

theorem regeneration_repeatable_witness:
  "traceHalfedge extSoup (nudgeLength tri0 0) (edge_halfedge tri0 0) False \<noteq> []
   \<and> traceHalfedge extSoup (nudgeLength tri0 1) (edge_halfedge tri0 1) False \<noteq> []
   \<and> traceHalfedge extSoup (nudgeLength tri0 2) (edge_halfedge tri0 2) False \<noteq> []
   \<and> mesh_edges tri0 = [0, 1, 2]
   \<and> (\<exists>old. sceneOld ''bubble tufted cover'' = Some old \<and> meshData old = (1, 0)
         \<and> graphQuantities old ''other'' = Some [])
   \<and> (\<exists>sc' new. generateVisualization extSoup params0 tri0 sceneOld = Inr (sc', tri0)
         \<and> sc' ''bubble tufted cover'' = Some new
         \<and> meshData new = (3, 1 / 5)
         \<and> graphQuantities new ''other'' = None
         \<and> graphQuantities new ''intrinsic edges'' = Some (tracedCurves extSoup params0 tri0)
         \<and> length (tracedCurves extSoup params0 tri0) = 3
         \<and> generateVisualization extSoup params0 tri0 sc' = Inr (sc', tri0))"
proof -
  have t: "traceHalfedge extSoup (nudgeLength tri0 0) (edge_halfedge tri0 0) False \<noteq> []
   \<and> traceHalfedge extSoup (nudgeLength tri0 1) (edge_halfedge tri0 1) False \<noteq> []
   \<and> traceHalfedge extSoup (nudgeLength tri0 2) (edge_halfedge tri0 2) False \<noteq> []"
    by (simp add: extSoup_def ext0_def)
  have es: "mesh_edges tri0 = [0, 1, 2]"
    by (simp add: tri0_def)
  have h: "\<forall>e \<in> set (mesh_edges tri0).
             traceHalfedge extSoup (nudgeLength tri0 e) (edge_halfedge tri0 e) False \<noteq> []"
    by (simp add: extSoup_def ext0_def)
  have old: "\<exists>old. sceneOld ''bubble tufted cover'' = Some old \<and> meshData old = (1, 0)
         \<and> graphQuantities old ''other'' = Some []"
    by (simp add: sceneOld_def)
  from regeneration_repeatable [OF h, of params0 sceneOld] obtain sc' where
    run: "generateVisualization extSoup params0 tri0 sceneOld = Inr (sc', tri0)"
    and entry: "sc' ''bubble tufted cover''
               = Some \<lparr>meshData = subdivideRounded extSoup (subdivLevel params0) (bubbleScale params0),
                       graphQuantities = [''intrinsic edges'' \<mapsto> tracedCurves extSoup params0 tri0]\<rparr>"
    and again: "generateVisualization extSoup params0 tri0 sc' = Inr (sc', tri0)"
    by blast
  let ?new = "\<lparr>meshData = subdivideRounded extSoup (subdivLevel params0) (bubbleScale params0),
                graphQuantities = [''intrinsic edges'' \<mapsto> tracedCurves extSoup params0 tri0]\<rparr>"
  have m: "meshData ?new = (3, 1 / 5)"
    by (simp add: extSoup_def params0_def)
  have q: "graphQuantities ?new ''other'' = None
         \<and> graphQuantities ?new ''intrinsic edges'' = Some (tracedCurves extSoup params0 tri0)"
    by simp
  have l: "length (tracedCurves extSoup params0 tri0) = 3"
    using tracedCurves_extSoup by simp
  from run entry m q l again have "\<exists>sc' new. generateVisualization extSoup params0 tri0 sceneOld = Inr (sc', tri0)
         \<and> sc' ''bubble tufted cover'' = Some new
         \<and> meshData new = (3, 1 / 5)
         \<and> graphQuantities new ''other'' = None
         \<and> graphQuantities new ''intrinsic edges'' = Some (tracedCurves extSoup params0 tri0)
         \<and> length (tracedCurves extSoup params0 tri0) = 3
         \<and> generateVisualization extSoup params0 tri0 sc' = Inr (sc', tri0)"
    by blast
  with t es old show ?thesis
    by simp
qed

end
